theory Spec2Isabelle
  imports Complex_Main "HOL-Library.AList"
begin

section \<open>Data model of \<open>machamp_model.py\<close>\<close>

text \<open>
  Python dictionaries keep insertion order, so every dictionary the model builds or reads
  is an association list: \<open>d[k] = v\<close> is \<open>AList.update k v d\<close> (the value is replaced in
  place, or the pair is appended), \<open>d[k]\<close> is \<open>py_get d k\<close> (a \<open>KeyError\<close> when the key
  is missing) and \<open>k in d\<close> is \<open>has_key d k\<close>.

  Every \<open>torch.Tensor\<close> and every Python number is a value of the type \<open>'v\<close>; the loss
  starts at \<open>0\<close> and is accumulated with \<open>+\<close>, from left to right, and nothing else is
  assumed about \<open>'v\<close>. The token tensors that \<open>forward\<close> passes to the embedder are of the
  type \<open>'x\<close>. Each decoder owns a state of the type \<open>'s\<close> (its running metric counters);
  the decoders' states are kept in a store indexed by the task name.

  The errors are the exceptions of Python. \<open>NotAContainer\<close> is what a tensor or a number
  raises when it is used as a container, in \<open>k in v\<close> or \<open>v[k]\<close>: a \<open>TypeError\<close> for a number,
  an error of \<open>torch\<close> for a tensor.
\<close>

datatype error =
    KeyError string
  | IndexError
  | TypeError
  | ValueError
  | NameError
  | RuntimeError string
  | NotAContainer

definition has_key :: "(string \<times> 'a) list \<Rightarrow> string \<Rightarrow> bool" where
  "has_key d k = (map_of d k \<noteq> None)"

definition py_get :: "(string \<times> 'a) list \<Rightarrow> string \<Rightarrow> error + 'a" where
  "py_get d k = (case map_of d k of None \<Rightarrow> Inl (KeyError k) | Some v \<Rightarrow> Inr v)"

text \<open>
  The values stored in an output bundle: a tensor or number, a mapping from strings to
  tensors, a list, a string, a mapping from column names to column indices, an integer.
\<close>

datatype 'v pyval =
    Tensor 'v
  | Dict "(string \<times> 'v) list"
  | Seq "'v pyval list"
  | Str string
  | Cols "(string \<times> nat) list"
  | IntVal nat

text \<open>
  One entry of \<open>metadata\<close>: the fields the data reader gives every example. The raw tokens
  and the source rows are values the model stores in its output as they are.
\<close>

record 'v metadata_entry =
  tokens :: "'v pyval"
  full_data :: "'v pyval"
  col_idxs :: "(string \<times> nat) list"

text \<open>
  The five calling conventions of \<open>decoder.forward\<close>, with the arguments in the order the
  source passes them; a gold label that is not in \<open>gold_labels\<close> is passed as \<open>None\<close>.
\<close>

datatype 'v decoder_call =
    Classification_call 'v "'v option"
  | Dependency_call 'v 'v "'v option" "'v option"
  | Unsupervised_call 'v "'v option"
  | Seq2seq_call 'v 'v "'v option"
  | Tagging_call 'v "'v option" 'v

text \<open>The value a decoder reports for one metric: a number, or a mapping of numbers.\<close>

datatype 'v metric = Num 'v | Sub "(string \<times> 'v) list"

text \<open>
  A decoder is a collaborator of this model: its three methods are parameters. Each may
  raise and each may change the decoder's own state. \<open>make_output_human_readable\<close> is
  called with one argument for most task types and with three for a dependency task, whose
  result is unpacked into a pair.
\<close>

record ('v, 's) decoder =
  dec_forward :: "'v decoder_call \<Rightarrow> 's \<Rightarrow> (error + (string \<times> 'v) list) \<times> 's"
  dec_human_readable :: "'v pyval \<Rightarrow> 's \<Rightarrow> (error + 'v pyval) \<times> 's"
  dec_human_readable_dep ::
    "'v pyval \<Rightarrow> 'v pyval \<Rightarrow> 'v pyval \<Rightarrow> 's \<Rightarrow> (error + 'v pyval \<times> 'v pyval) \<times> 's"
  dec_get_metrics :: "bool \<Rightarrow> 's \<Rightarrow> (error + (string \<times> 'v metric) list) \<times> 's"

text \<open>
  The fields \<open>__init__\<close> sets. \<open>dropout\<close> holds \<open>_dropout\<close> and \<open>_dropout_sents\<close>, which
  exist together or not at all. The embedder, the encoder, the mask function and the two
  dropout modules are taken as functions of their arguments.
\<close>

record ('v, 'x, 's) machamp_model =
  text_field_embedder :: "'x \<Rightarrow> 'v"
  encoder :: "'v \<Rightarrow> 'v \<Rightarrow> 'v"
  get_text_field_mask :: "'x \<Rightarrow> 'v"
  dropout :: "(('v \<Rightarrow> 'v) \<times> ('v \<Rightarrow> 'v)) option"
  decoders :: "string \<Rightarrow> ('v, 's) decoder option"
  tasks :: "string list"
  task_types :: "string list"

section \<open>\<open>forward\<close>: the batch task selector (lines 61-68)\<close>

text \<open>\<open>metadata[0]['col_idxs']\<close>; \<open>metadata\<close> defaults to \<open>None\<close> and may be empty.\<close>

definition first_col_idxs :: "'v metadata_entry list option \<Rightarrow> error + (string \<times> nat) list" where
  "first_col_idxs metadata =
     (case metadata of
        None \<Rightarrow> Inl TypeError
      | Some [] \<Rightarrow> Inl IndexError
      | Some (m # _) \<Rightarrow> Inr (col_idxs m))"

definition is_active :: "(string \<times> nat) list \<Rightarrow> string \<Rightarrow> string \<Rightarrow> bool" where
  "is_active cols task task_type =
     (let s2s_and_in = (task_type = ''seq2seq'' \<and> has_key cols (task @ ''_target_words''));
          dep_and_in = (task_type = ''dependency'' \<and> has_key cols (task @ ''_rels''))
      in s2s_and_in \<or> dep_and_in \<or> has_key cols task)"

text \<open>
  The first loop, over \<open>zip(self.tasks, self.task_types)\<close>. \<open>tasks_to_handle\<close> and
  \<open>task_types_to_handle\<close> grow together, so they are one list of pairs. Every iteration
  reads \<open>metadata[0]['col_idxs']\<close>, so a missing first entry raises as soon as the registry
  has one task.
\<close>

fun select_tasks ::
  "'v metadata_entry list option \<Rightarrow> (string \<times> string) list \<Rightarrow> (string \<times> string) list
     \<Rightarrow> error + (string \<times> string) list" where
  "select_tasks metadata [] to_handle = Inr to_handle"
| "select_tasks metadata ((task, task_type) # rest) to_handle =
     (case first_col_idxs metadata of
        Inl e \<Rightarrow> Inl e
      | Inr cols \<Rightarrow>
          select_tasks metadata rest
            (if is_active cols task task_type then to_handle @ [(task, task_type)] else to_handle))"

text \<open>The inclusion rule as section 4.1 of the specification words it: one key per type.\<close>

definition spec_key :: "string \<Rightarrow> string \<Rightarrow> string" where
  "spec_key task task_type =
     (if task_type = ''seq2seq'' then task @ ''_target_words''
      else if task_type = ''dependency'' then task @ ''_rels''
      else task)"

definition spec_is_active :: "(string \<times> nat) list \<Rightarrow> string \<Rightarrow> string \<Rightarrow> bool" where
  "spec_is_active cols task task_type = has_key cols (spec_key task task_type)"

section \<open>\<open>forward\<close>: shared representations (lines 70-80)\<close>

text \<open>
  The mask, the token embedding and the pooled sentence embedding, which is computed only
  when a classification task is handled and is an unbound variable otherwise.
\<close>

definition shared_representation ::
  "('v, 'x, 's) machamp_model \<Rightarrow> 'x \<Rightarrow> (string \<times> string) list \<Rightarrow> 'v \<times> 'v \<times> 'v option" where
  "shared_representation M toks to_handle =
     (let sent_count = count_list (map snd to_handle) ''classification'';
          msk = get_text_field_mask M toks;
          embedded_text = text_field_embedder M toks;
          embedded_text_sent =
            (if sent_count > 0 then Some (encoder M (text_field_embedder M toks) msk) else None)
      in case dropout M of
           None \<Rightarrow> (msk, embedded_text, embedded_text_sent)
         | Some (drop_tokens, drop_sents) \<Rightarrow>
             (msk, drop_tokens embedded_text,
              if sent_count > 0 then map_option drop_sents embedded_text_sent
              else embedded_text_sent))"

section \<open>\<open>forward\<close>: the task dispatcher and the loss (lines 82-119)\<close>

text \<open>The arguments of the decoder call, one branch per task type (lines 89-110).\<close>

definition decoder_call ::
  "(string \<times> 'v) list \<Rightarrow> 'v \<Rightarrow> 'v \<Rightarrow> 'v option \<Rightarrow> string \<Rightarrow> string \<Rightarrow> error + 'v decoder_call" where
  "decoder_call gold_labels msk embedded_text embedded_text_sent task task_type =
     (if task_type = ''classification'' then
        (case embedded_text_sent of
           None \<Rightarrow> Inl NameError
         | Some sent \<Rightarrow> Inr (Classification_call sent (map_of gold_labels task)))
      else if task_type = ''dependency'' then
        Inr (Dependency_call embedded_text msk
               (map_of gold_labels (task @ ''_rels''))
               (map_of gold_labels (task @ ''_head_indices'')))
      else if task_type = ''unsupervised'' then
        Inr (Unsupervised_call embedded_text (map_of gold_labels task))
      else if task_type = ''seq2seq'' then
        Inr (Seq2seq_call embedded_text msk (map_of gold_labels (task @ ''_target'')))
      else
        Inr (Tagging_call embedded_text (map_of gold_labels task) msk))"

text \<open>
  \<open>pred_output = self.decoders[task].forward(...)\<close>: the lookup of the decoder, then the
  call, which returns the decoder's output or raises, and leaves the decoder's new state
  in the store.
\<close>

definition call_decoder ::
  "('v, 'x, 's) machamp_model \<Rightarrow> (string \<times> 'v) list \<Rightarrow> 'v \<Rightarrow> 'v \<Rightarrow> 'v option \<Rightarrow> string \<Rightarrow> string
     \<Rightarrow> (string \<Rightarrow> 's) \<Rightarrow> (error + (string \<times> 'v) list) \<times> (string \<Rightarrow> 's)" where
  "call_decoder M gold_labels msk embedded_text embedded_text_sent task task_type st =
     (case decoders M task of
        None \<Rightarrow> (Inl (KeyError task), st)
      | Some d \<Rightarrow>
          (case decoder_call gold_labels msk embedded_text embedded_text_sent task task_type of
             Inl e \<Rightarrow> (Inl e, st)
           | Inr c \<Rightarrow> (case dec_forward d c (st task) of (r, s') \<Rightarrow> (r, st(task := s')))))"

text \<open>The entries each branch copies into \<open>class_probabilities\<close> (lines 92, 99-100, 107, 111).\<close>

definition store_probabilities ::
  "string \<Rightarrow> string \<Rightarrow> (string \<times> 'v) list \<Rightarrow> (string \<times> 'v) list \<Rightarrow> error + (string \<times> 'v) list" where
  "store_probabilities task task_type pred_output class_probabilities =
     (if task_type = ''classification'' then
        (case py_get pred_output ''class_probabilities'' of
           Inl e \<Rightarrow> Inl e
         | Inr p \<Rightarrow> Inr (AList.update task p class_probabilities))
      else if task_type = ''dependency'' then
        (case py_get pred_output (task @ ''_rels'') of
           Inl e \<Rightarrow> Inl e
         | Inr rels \<Rightarrow>
             (case py_get pred_output (task @ ''_head_indices'') of
                Inl e \<Rightarrow> Inl e
              | Inr heads \<Rightarrow>
                  Inr (AList.update (task @ ''_head_indices'') heads
                         (AList.update (task @ ''_rels'') rels class_probabilities))))
      else if task_type = ''unsupervised'' then Inr class_probabilities
      else if task_type = ''seq2seq'' then
        (case py_get pred_output ''class_probabilities'' of
           Inl e \<Rightarrow> Inl e
         | Inr p \<Rightarrow> Inr (AList.update task p class_probabilities))
      else
        (case py_get pred_output ''class_probabilities'' of
           Inl e \<Rightarrow> Inl e
         | Inr p \<Rightarrow> Inr (AList.update task p class_probabilities)))"

text \<open>The test of lines 116-118 that decides whether the task's loss is added.\<close>

definition gold_present :: "(string \<times> 'v) list \<Rightarrow> string \<Rightarrow> string \<Rightarrow> bool" where
  "gold_present gold_labels task task_type =
     (let dep_and_in = (task_type = ''dependency'' \<and> has_key gold_labels (task @ ''_rels''));
          s2s_and_in = (task_type = ''seq2seq'' \<and> has_key gold_labels (task @ ''_target_words''))
      in dep_and_in \<or> s2s_and_in \<or> has_key gold_labels task)"

text \<open>Lines 92-119 after the decoder has returned \<open>pred_output\<close>.\<close>

definition after_call ::
  "(string \<times> 'v) list \<Rightarrow> string \<Rightarrow> string \<Rightarrow> (string \<times> 'v) list
     \<Rightarrow> (string \<times> 'v) list \<times> (string \<times> 'v) list \<times> 'v
     \<Rightarrow> error + (string \<times> 'v) list \<times> (string \<times> 'v) list \<times> ('v :: plus)" where
  "after_call gold_labels task task_type pred_output acc =
     (case acc of (logits, class_probabilities, loss) \<Rightarrow>
        (case store_probabilities task task_type pred_output class_probabilities of
           Inl e \<Rightarrow> Inl e
         | Inr class_probabilities' \<Rightarrow>
             (let logits' = (case map_of pred_output ''loss'' of
                               None \<Rightarrow> logits
                             | Some l \<Rightarrow> AList.update task l logits)
              in if gold_present gold_labels task task_type then
                   (case py_get pred_output ''loss'' of
                      Inl e \<Rightarrow> Inl e
                    | Inr l \<Rightarrow> Inr (logits', class_probabilities', loss + l))
                 else Inr (logits', class_probabilities', loss))))"

text \<open>The second loop, over the tasks to handle, in their order.\<close>

fun dispatch ::
  "('v, 'x, 's) machamp_model \<Rightarrow> (string \<times> 'v) list \<Rightarrow> 'v \<Rightarrow> 'v \<Rightarrow> 'v option
     \<Rightarrow> (string \<times> string) list
     \<Rightarrow> (string \<times> 'v) list \<times> (string \<times> 'v) list \<times> 'v \<Rightarrow> (string \<Rightarrow> 's)
     \<Rightarrow> (error + (string \<times> 'v) list \<times> (string \<times> 'v) list \<times> ('v :: plus)) \<times> (string \<Rightarrow> 's)" where
  "dispatch M gold_labels msk embedded_text embedded_text_sent [] acc st = (Inr acc, st)"
| "dispatch M gold_labels msk embedded_text embedded_text_sent ((task, task_type) # rest) acc st =
     (case call_decoder M gold_labels msk embedded_text embedded_text_sent task task_type st of
        (Inl e, st') \<Rightarrow> (Inl e, st')
      | (Inr pred_output, st') \<Rightarrow>
          (case after_call gold_labels task task_type pred_output acc of
             Inl e \<Rightarrow> (Inl e, st')
           | Inr acc' \<Rightarrow> dispatch M gold_labels msk embedded_text embedded_text_sent rest acc' st'))"

section \<open>\<open>forward\<close>: the output bundle (lines 84-85, 121-133)\<close>

text \<open>
  \<open>output_dict\<close> is created with the two mappings before the loop fills them; it holds
  references, so what it returns is their final content. The keys are written in the
  order of the source.
\<close>

definition output_bundle ::
  "('v, 'x, 's) machamp_model \<Rightarrow> 'v metadata_entry list option \<Rightarrow> (string \<times> 'v) list \<Rightarrow> 'v
     \<Rightarrow> (string \<times> 'v) list \<Rightarrow> (string \<times> 'v) list \<Rightarrow> 'v \<Rightarrow> (string \<times> 'v pyval) list" where
  "output_bundle M metadata gold_labels msk logits class_probabilities loss =
     (let output_dict = [(''logits'', Dict logits), (''class_probabilities'', Dict class_probabilities)];
          output_dict = (if gold_labels \<noteq> [] then AList.update ''loss'' (Tensor loss) output_dict
                         else output_dict);
          output_dict =
            (case metadata of
               None \<Rightarrow> output_dict
             | Some md \<Rightarrow>
                 AList.update ''task_types'' (Seq (map (\<lambda>_. Seq (map Str (task_types M))) md))
                   (AList.update ''tasks'' (Seq (map (\<lambda>_. Seq (map Str (tasks M))) md))
                      (AList.update ''col_idxs'' (Seq (map (\<lambda>x. Cols (col_idxs x)) md))
                         (AList.update ''full_data'' (Seq (map full_data md))
                            (AList.update ''tokens'' (Seq (map tokens md))
                               output_dict)))))
      in AList.update ''mask'' (Tensor msk) output_dict)"

definition forward ::
  "('v, 'x, 's) machamp_model \<Rightarrow> 'x \<Rightarrow> 'v metadata_entry list option \<Rightarrow> (string \<times> 'v) list
     \<Rightarrow> (string \<Rightarrow> 's) \<Rightarrow> (error + (string \<times> ('v :: {zero, plus}) pyval) list) \<times> (string \<Rightarrow> 's)" where
  "forward M toks metadata gold_labels st =
     (case select_tasks metadata (zip (tasks M) (task_types M)) [] of
        Inl e \<Rightarrow> (Inl e, st)
      | Inr to_handle \<Rightarrow>
          (case shared_representation M toks to_handle of
             (msk, embedded_text, embedded_text_sent) \<Rightarrow>
               (case dispatch M gold_labels msk embedded_text embedded_text_sent to_handle
                       ([], [], 0) st of
                  (Inl e, st') \<Rightarrow> (Inl e, st')
                | (Inr (logits, class_probabilities, loss), st') \<Rightarrow>
                    (Inr (output_bundle M metadata gold_labels msk logits class_probabilities loss),
                     st'))))"

text \<open>
  The outputs the decoders return during one run of the dispatcher, in order, each with
  its task and type: the \<open>pred_output\<close> of every iteration. The list ends where a decoder
  raises.
\<close>

fun pred_outputs ::
  "('v, 'x, 's) machamp_model \<Rightarrow> (string \<times> 'v) list \<Rightarrow> 'v \<Rightarrow> 'v \<Rightarrow> 'v option
     \<Rightarrow> (string \<times> string) list \<Rightarrow> (string \<Rightarrow> 's)
     \<Rightarrow> (string \<times> string \<times> (string \<times> 'v) list) list" where
  "pred_outputs M gold_labels msk embedded_text embedded_text_sent [] st = []"
| "pred_outputs M gold_labels msk embedded_text embedded_text_sent ((task, task_type) # rest) st =
     (case call_decoder M gold_labels msk embedded_text embedded_text_sent task task_type st of
        (Inl e, st') \<Rightarrow> []
      | (Inr pred_output, st') \<Rightarrow>
          (task, task_type, pred_output)
            # pred_outputs M gold_labels msk embedded_text embedded_text_sent rest st')"

text \<open>
  The values \<open>pred_output['loss']\<close> of the iterations that a presence test selects, in
  order, and their left-to-right sum from \<open>0\<close>.
\<close>

definition selected_losses ::
  "(string \<Rightarrow> string \<Rightarrow> bool) \<Rightarrow> (string \<times> string \<times> (string \<times> 'v) list) list \<Rightarrow> 'v list" where
  "selected_losses present outs =
     concat (map (\<lambda>(task, task_type, pred_output).
                  if present task task_type
                  then (case map_of pred_output ''loss'' of None \<Rightarrow> [] | Some l \<Rightarrow> [l])
                  else []) outs)"

definition loss_sum ::
  "(string \<Rightarrow> string \<Rightarrow> bool) \<Rightarrow> (string \<times> string \<times> (string \<times> 'v) list) list \<Rightarrow> ('v :: {zero, plus})" where
  "loss_sum present outs = foldl (+) 0 (selected_losses present outs)"

text \<open>Presence of the gold label as the specification words it: the key of section 4.1.\<close>

definition spec_gold_present :: "(string \<times> 'v) list \<Rightarrow> string \<Rightarrow> string \<Rightarrow> bool" where
  "spec_gold_present gold_labels task task_type = has_key gold_labels (spec_key task task_type)"

section \<open>\<open>make_output_human_readable\<close> (lines 136-153)\<close>

text \<open>\<open>self.tasks.index(task)\<close>: the first position of the task.\<close>

fun index_of :: "string list \<Rightarrow> string \<Rightarrow> error + nat" where
  "index_of [] x = Inl ValueError"
| "index_of (y # ys) x =
     (if y = x then Inr 0
      else (case index_of ys x of Inl e \<Rightarrow> Inl e | Inr i \<Rightarrow> Inr (Suc i)))"

text \<open>\<open>self.task_types[self.tasks.index(task)]\<close>.\<close>

definition task_type_of :: "('v, 'x, 's) machamp_model \<Rightarrow> string \<Rightarrow> error + string" where
  "task_type_of M task =
     (case index_of (tasks M) task of
        Inl e \<Rightarrow> Inl e
      | Inr i \<Rightarrow> (if i < length (task_types M) then Inr (task_types M ! i) else Inl IndexError))"

text \<open>\<open>k in s\<close> for two strings: \<open>k\<close> occurs in \<open>s\<close>.\<close>

fun occurs_in :: "string \<Rightarrow> string \<Rightarrow> bool" where
  "occurs_in k [] = (k = [])"
| "occurs_in k (c # cs) = (take (length k) (c # cs) = k \<or> occurs_in k cs)"

text \<open>
  \<open>k in v\<close> for a string \<open>k\<close>: a key of a mapping, an element of a list (only a string is
  equal to a string), a substring of a string; an integer is not iterable.
\<close>

definition py_contains :: "'v pyval \<Rightarrow> string \<Rightarrow> error + bool" where
  "py_contains v k =
     (case v of
        Tensor x \<Rightarrow> Inl NotAContainer
      | Dict d \<Rightarrow> Inr (has_key d k)
      | Seq xs \<Rightarrow> Inr (Str k \<in> set xs)
      | Str s \<Rightarrow> Inr (occurs_in k s)
      | Cols c \<Rightarrow> Inr (has_key c k)
      | IntVal n \<Rightarrow> Inl TypeError)"

text \<open>
  \<open>v[k]\<close> for a string \<open>k\<close>: the value of a mapping at the key; a list, a string and an
  integer take no string as an index.
\<close>

definition py_getitem :: "'v pyval \<Rightarrow> string \<Rightarrow> error + 'v pyval" where
  "py_getitem v k =
     (case v of
        Tensor x \<Rightarrow> Inl NotAContainer
      | Dict d \<Rightarrow> (case map_of d k of None \<Rightarrow> Inl (KeyError k) | Some x \<Rightarrow> Inr (Tensor x))
      | Seq xs \<Rightarrow> Inl TypeError
      | Str s \<Rightarrow> Inl TypeError
      | Cols c \<Rightarrow> (case map_of c k of None \<Rightarrow> Inl (KeyError k) | Some n \<Rightarrow> Inr (IntVal n))
      | IntVal n \<Rightarrow> Inl TypeError)"

text \<open>Lines 145-146: the two lookups of the dependency branch.\<close>

definition dep_lookup :: "'v pyval \<Rightarrow> string \<Rightarrow> error + 'v pyval \<times> 'v pyval" where
  "dep_lookup class_probabilities task =
     (case py_getitem class_probabilities (task @ ''_rels'') of
        Inl e \<Rightarrow> Inl e
      | Inr dep_tags \<Rightarrow>
          (case py_getitem class_probabilities (task @ ''_head_indices'') of
             Inl e \<Rightarrow> Inl e
           | Inr dep_heads \<Rightarrow> Inr (dep_tags, dep_heads)))"

text \<open>Line 143: the decoder of the task humanizes \<open>class_probabilities[task]\<close>.\<close>

definition humanize_entry ::
  "('v, 'x, 's) machamp_model \<Rightarrow> string \<Rightarrow> 'v pyval \<Rightarrow> (string \<times> 'v pyval) list \<Rightarrow> (string \<Rightarrow> 's)
     \<Rightarrow> (error + (string \<times> 'v pyval) list) \<times> (string \<Rightarrow> 's)" where
  "humanize_entry M task class_probabilities output_dict st =
     (case decoders M task of
        None \<Rightarrow> (Inl (KeyError task), st)
      | Some d \<Rightarrow>
          (case py_getitem class_probabilities task of
             Inl e \<Rightarrow> (Inl e, st)
           | Inr p \<Rightarrow>
               (case dec_human_readable d p (st task) of
                  (Inl e, s') \<Rightarrow> (Inl e, st(task := s'))
                | (Inr h, s') \<Rightarrow> (Inr (AList.update task h output_dict), st(task := s')))))"

text \<open>Lines 145-149: the dependency branch.\<close>

definition humanize_dependency ::
  "('v, 'x, 's) machamp_model \<Rightarrow> string \<Rightarrow> 'v pyval \<Rightarrow> (string \<times> 'v pyval) list \<Rightarrow> (string \<Rightarrow> 's)
     \<Rightarrow> (error + (string \<times> 'v pyval) list) \<times> (string \<Rightarrow> 's)" where
  "humanize_dependency M task class_probabilities output_dict st =
     (case dep_lookup class_probabilities task of
        Inl e \<Rightarrow> (Inl e, st)
      | Inr (dep_tags, dep_heads) \<Rightarrow>
          (case py_get output_dict ''mask'' of
             Inl e \<Rightarrow> (Inl e, st)
           | Inr msk \<Rightarrow>
               (case decoders M task of
                  None \<Rightarrow> (Inl (KeyError task), st)
                | Some d \<Rightarrow>
                    (case dec_human_readable_dep d dep_tags dep_heads msk (st task) of
                       (Inl e, s') \<Rightarrow> (Inl e, st(task := s'))
                     | (Inr (rels, heads), s') \<Rightarrow>
                         (Inr (AList.update (task @ ''_head_indices'') heads
                                 (AList.update (task @ ''_rels'') rels output_dict)),
                          st(task := s'))))))"

text \<open>
  The body of the loop over \<open>self.tasks\<close> (lines 141-149). The second membership test is
  evaluated only for a dependency task, and only when the first one is false.
\<close>

definition humanize_task ::
  "('v, 'x, 's) machamp_model \<Rightarrow> string \<Rightarrow> (string \<times> 'v pyval) list \<Rightarrow> (string \<Rightarrow> 's)
     \<Rightarrow> (error + (string \<times> 'v pyval) list) \<times> (string \<Rightarrow> 's)" where
  "humanize_task M task output_dict st =
     (case task_type_of M task of
        Inl e \<Rightarrow> (Inl e, st)
      | Inr task_type \<Rightarrow>
          (let is_dep = (task_type = ''dependency'') in
           case py_get output_dict ''class_probabilities'' of
             Inl e \<Rightarrow> (Inl e, st)
           | Inr class_probabilities \<Rightarrow>
               (case py_contains class_probabilities task of
                  Inl e \<Rightarrow> (Inl e, st)
                | Inr task_in \<Rightarrow>
                    if task_in then humanize_entry M task class_probabilities output_dict st
                    else if is_dep then
                      (case py_contains class_probabilities (task @ ''_rels'') of
                         Inl e \<Rightarrow> (Inl e, st)
                       | Inr rels_in \<Rightarrow>
                           if rels_in
                           then humanize_dependency M task class_probabilities output_dict st
                           else (Inr output_dict, st))
                    else (Inr output_dict, st))))"

fun humanize_tasks ::
  "('v, 'x, 's) machamp_model \<Rightarrow> string list \<Rightarrow> (string \<times> 'v pyval) list \<Rightarrow> (string \<Rightarrow> 's)
     \<Rightarrow> (error + (string \<times> 'v pyval) list) \<times> (string \<Rightarrow> 's)" where
  "humanize_tasks M [] output_dict st = (Inr output_dict, st)"
| "humanize_tasks M (task # rest) output_dict st =
     (case humanize_task M task output_dict st of
        (Inl e, st') \<Rightarrow> (Inl e, st')
      | (Inr output_dict', st') \<Rightarrow> humanize_tasks M rest output_dict' st')"

text \<open>
  \<open>output_dict['loss'] == 0\<close>: a number, a tensor or an integer is compared with zero; a
  list, a string or a mapping is never equal to \<open>0\<close>.
\<close>

definition equals_zero :: "('v :: zero) pyval \<Rightarrow> bool" where
  "equals_zero v = (case v of Tensor x \<Rightarrow> x = 0 | IntVal n \<Rightarrow> n = 0 | _ \<Rightarrow> False)"

text \<open>The final step (lines 151-153).\<close>

definition wrap_zero_loss ::
  "(string \<times> ('v :: zero) pyval) list \<Rightarrow> error + (string \<times> 'v pyval) list" where
  "wrap_zero_loss output_dict =
     (case py_get output_dict ''loss'' of
        Inl e \<Rightarrow> Inl e
      | Inr l \<Rightarrow>
          (if equals_zero l then Inr (AList.update ''loss'' (Seq [l]) output_dict)
           else Inr output_dict))"

definition make_output_human_readable ::
  "('v :: zero, 'x, 's) machamp_model \<Rightarrow> (string \<times> 'v pyval) list \<Rightarrow> (string \<Rightarrow> 's)
     \<Rightarrow> (error + (string \<times> 'v pyval) list) \<times> (string \<Rightarrow> 's)" where
  "make_output_human_readable M output_dict st =
     (case humanize_tasks M (tasks M) output_dict st of
        (Inl e, st') \<Rightarrow> (Inl e, st')
      | (Inr output_dict', st') \<Rightarrow> (wrap_zero_loss output_dict', st'))"

section \<open>\<open>get_metrics\<close> (lines 157-189)\<close>

text \<open>\<open>name.split("/")\<close>: never empty; \<open>[-1]\<close> is its last element.\<close>

fun split_slash :: "string \<Rightarrow> string list" where
  "split_slash [] = [] # []"
| "split_slash (c # cs) =
     (if c = CHR ''/'' then [] # split_slash cs
      else (case split_slash cs of [] \<Rightarrow> [c] # [] | w # ws \<Rightarrow> (c # w) # ws))"

definition lower_char :: "char \<Rightarrow> char" where
  "lower_char c =
     (if (65 :: nat) \<le> of_char c \<and> of_char c \<le> (90 :: nat) then char_of (of_char c + (32 :: nat))
      else c)"

definition lower :: "string \<Rightarrow> string" where
  "lower s = map lower_char s"

definition startswith :: "string \<Rightarrow> string \<Rightarrow> bool" where
  "startswith s p = (take (length p) s = p)"

definition endswith :: "string \<Rightarrow> string \<Rightarrow> bool" where
  "endswith s p = (length p \<le> length s \<and> drop (length s - length p) s = p)"

text \<open>\<open>task_metric[key]\<close>: a number cannot be subscripted.\<close>

definition sub_field :: "'v metric \<Rightarrow> string \<Rightarrow> error + 'v metric" where
  "sub_field task_metric key =
     (case task_metric of
        Num _ \<Rightarrow> Inl TypeError
      | Sub d \<Rightarrow> (case map_of d key of None \<Rightarrow> Inl (KeyError key) | Some v \<Rightarrow> Inr (Num v)))"

text \<open>
  The chain of lines 161-174 for one reported metric: \<open>None\<close> is the last branch, which
  only logs; otherwise the value to store, or the error of the extraction.
\<close>

definition extract_metric :: "string \<Rightarrow> 'v metric \<Rightarrow> (error + 'v metric) option" where
  "extract_metric name task_metric =
     (if last (split_slash name) \<in> set [''acc'', ''ppl''] then Some (Inr task_metric)
      else if lower (last (split_slash name)) \<in> set [''las''] then
        Some (sub_field task_metric ''LAS'')
      else if last (split_slash name) \<in> set [''micro-f1'', ''macro-f1''] then
        Some (sub_field task_metric ''fscore'')
      else if last (split_slash name) = ''span_f1'' then
        Some (sub_field task_metric ''f1-measure-overall'')
      else if last (split_slash name) = ''multi_span_f1'' then
        Some (sub_field task_metric ''f1-measure-overall'')
      else if last (split_slash name) = ''bleu'' then
        Some (sub_field task_metric ''BLEU'')
      else None)"

text \<open>
  The inner loop over the items one decoder reports. The third component is the log: the
  names \<open>logger.error\<close> was called with.
\<close>

fun reduce_items ::
  "(string \<times> 'v metric) list \<Rightarrow> (string \<times> 'v metric) list \<Rightarrow> string list
     \<Rightarrow> (error + (string \<times> 'v metric) list) \<times> string list" where
  "reduce_items [] metrics logged = (Inr metrics, logged)"
| "reduce_items ((name, task_metric) # rest) metrics logged =
     (case extract_metric name task_metric of
        None \<Rightarrow> reduce_items rest metrics (logged @ [name])
      | Some (Inl e) \<Rightarrow> (Inl e, logged)
      | Some (Inr v) \<Rightarrow> reduce_items rest (AList.update name v metrics) logged)"

text \<open>The outer loop over \<open>self.tasks\<close> (lines 159-174).\<close>

fun collect_metrics ::
  "('v, 'x, 's) machamp_model \<Rightarrow> bool \<Rightarrow> string list \<Rightarrow> (string \<times> 'v metric) list
     \<Rightarrow> (string \<Rightarrow> 's) \<Rightarrow> string list
     \<Rightarrow> (error + (string \<times> 'v metric) list) \<times> (string \<Rightarrow> 's) \<times> string list" where
  "collect_metrics M reset [] metrics st logged = (Inr metrics, st, logged)"
| "collect_metrics M reset (task # rest) metrics st logged =
     (case decoders M task of
        None \<Rightarrow> (Inl (KeyError task), st, logged)
      | Some d \<Rightarrow>
          (case dec_get_metrics d reset (st task) of
             (Inl e, s') \<Rightarrow> (Inl e, st(task := s'), logged)
           | (Inr items, s') \<Rightarrow>
               (case reduce_items items metrics logged of
                  (Inl e, logged') \<Rightarrow> (Inl e, st(task := s'), logged')
                | (Inr metrics', logged') \<Rightarrow>
                    collect_metrics M reset rest metrics' (st(task := s')) logged')))"

text \<open>Lines 176-178.\<close>

definition metrics_to_track :: "('v, 'x, 's) machamp_model \<Rightarrow> string set" where
  "metrics_to_track M =
     set (map (\<lambda>(task, task_type). if task_type \<noteq> ''dependency'' then task else ''las'')
            (zip (tasks M) (task_types M)))"

text \<open>The test of lines 182-183 on the name of a stored metric.\<close>

definition counts_in_sum :: "string set \<Rightarrow> string \<Rightarrow> bool" where
  "counts_in_sum track name =
     ((\<not> startswith name ''_'' \<and> set (split_slash name) \<inter> track \<noteq> {})
      \<and> \<not> endswith name ''ppl'')"

text \<open>
  The loop of lines 180-184; \<open>metric_sum += metric\<close> raises a \<open>TypeError\<close> when the stored
  value is a mapping.
\<close>

fun sum_tracked ::
  "string set \<Rightarrow> (string \<times> 'v metric) list \<Rightarrow> 'v \<Rightarrow> error + ('v :: plus)" where
  "sum_tracked track [] metric_sum = Inr metric_sum"
| "sum_tracked track ((name, metric) # rest) metric_sum =
     (if counts_in_sum track name then
        (case metric of
           Num v \<Rightarrow> sum_tracked track rest (metric_sum + v)
         | Sub _ \<Rightarrow> Inl TypeError)
      else sum_tracked track rest metric_sum)"

definition get_metrics ::
  "('v :: {zero, plus}, 'x, 's) machamp_model \<Rightarrow> bool \<Rightarrow> (string \<Rightarrow> 's)
     \<Rightarrow> (error + (string \<times> 'v metric) list) \<times> (string \<Rightarrow> 's) \<times> string list" where
  "get_metrics M reset st =
     (case collect_metrics M reset (tasks M) [] st [] of
        (Inl e, st', logged) \<Rightarrow> (Inl e, st', logged)
      | (Inr metrics, st', logged) \<Rightarrow>
          (case sum_tracked (metrics_to_track M) metrics 0 of
             Inl e \<Rightarrow> (Inl e, st', logged)
           | Inr metric_sum \<Rightarrow>
               (Inr (AList.update ''.run/.sum'' (Num metric_sum) metrics), st', logged)))"

section \<open>Reference notions for the metric reducer\<close>

text \<open>
  The vocabulary of suffixes of section 4.6 of the specification; \<open>las\<close> is matched
  without regard to case.
\<close>

definition spec_recognized_suffix :: "string \<Rightarrow> bool" where
  "spec_recognized_suffix s =
     (s \<in> set [''acc'', ''ppl'', ''micro-f1'', ''macro-f1'', ''span_f1'', ''multi_span_f1'', ''bleu'']
      \<or> lower s = ''las'')"

text \<open>
  The numbers of the stored metrics whose name has a component in the tracked set, does
  not start with an underscore and does not end in \<open>ppl\<close>, in the order of the mapping.
\<close>

definition tracked_values :: "string set \<Rightarrow> (string \<times> 'v metric) list \<Rightarrow> 'v list" where
  "tracked_values track metrics =
     concat (map (\<lambda>(name, metric).
                    if (set (split_slash name) \<inter> track \<noteq> {} \<and> \<not> startswith name ''_'')
                       \<and> \<not> endswith name ''ppl''
                    then (case metric of Num v \<Rightarrow> [v] | Sub _ \<Rightarrow> [])
                    else []) metrics)"

text \<open>
  A decoder that reports what \<open>d\<close> reports, except the entries with an unrecognized
  suffix; and a model whose decoders are all of this kind.
\<close>

definition without_unrecognized :: "('v, 's) decoder \<Rightarrow> ('v, 's) decoder" where
  "without_unrecognized d =
     d \<lparr> dec_get_metrics :=
           (\<lambda>reset s. case dec_get_metrics d reset s of
                         (Inl e, s') \<Rightarrow> (Inl e, s')
                       | (Inr items, s') \<Rightarrow>
                           (Inr (filter (\<lambda>(name, task_metric).
                                           spec_recognized_suffix (last (split_slash name))) items),
                            s')) \<rparr>"

definition drop_unrecognized_metrics :: "('v, 'x, 's) machamp_model \<Rightarrow> ('v, 'x, 's) machamp_model" where
  "drop_unrecognized_metrics M =
     M \<lparr> decoders := (\<lambda>task. map_option without_unrecognized (decoders M task)) \<rparr>"

section \<open>Concrete models\<close>

text \<open>
  Small instances on which the definitions are evaluated. A decoder of the examples
  returns a fixed output, counts its calls in its state, and reports fixed metrics; a reset
  sets the counter to zero.
\<close>

definition example_decoder ::
  "(string \<times> real) list \<Rightarrow> (string \<times> real metric) list \<Rightarrow> (real, nat) decoder" where
  "example_decoder pred_output reported =
     \<lparr> dec_forward = (\<lambda>c s. (Inr pred_output, Suc s)),
       dec_human_readable = (\<lambda>p s. (Inr (Seq [Str ''label'']), s)),
       dec_human_readable_dep = (\<lambda>tags heads m s. (Inr (Seq [Str ''root''], Seq [Tensor 0]), s)),
       dec_get_metrics = (\<lambda>reset s. (Inr reported, if reset then 0 else s)) \<rparr>"

definition example_model ::
  "string list \<Rightarrow> string list \<Rightarrow> (string \<times> (real, nat) decoder) list
     \<Rightarrow> (real, unit, nat) machamp_model" where
  "example_model ts tys decs =
     \<lparr> text_field_embedder = (\<lambda>_. 0), encoder = (\<lambda>e m. e), get_text_field_mask = (\<lambda>_. 1),
       dropout = None, decoders = map_of decs, tasks = ts, task_types = tys \<rparr>"

definition example_metadata :: "(string \<times> nat) list \<Rightarrow> real metadata_entry list option" where
  "example_metadata cols = Some [\<lparr> tokens = Seq [], full_data = Seq [], col_idxs = cols \<rparr>]"

text \<open>One dependency task \<open>t\<close>.\<close>

definition dep_model :: "(real, unit, nat) machamp_model" where
  "dep_model = example_model [''t''] [''dependency'']
     [(''t'', example_decoder [(''loss'', 1), (''t_rels'', 2), (''t_head_indices'', 3)] [])]"

text \<open>One classification task whose name is \<open>loss\<close>.\<close>

definition loss_named_model :: "(real, unit, nat) machamp_model" where
  "loss_named_model = example_model [''loss''] [''classification'']
     [(''loss'', example_decoder [(''class_probabilities'', 7)] [])]"

text \<open>A dependency task \<open>t\<close> beside a sequence-to-sequence task named \<open>t_rels\<close>.\<close>

definition clash_model :: "(real, unit, nat) machamp_model" where
  "clash_model = example_model [''t'', ''t_rels''] [''dependency'', ''seq2seq'']
     [(''t'', example_decoder [(''loss'', 1), (''t_rels'', 2), (''t_head_indices'', 3)] []),
      (''t_rels'', example_decoder [(''class_probabilities'', 7)] [])]"

text \<open>The example of section 8 of the specification: tracked set \<open>{task_a, las}\<close>.\<close>

definition metrics_model :: "(real, unit, nat) machamp_model" where
  "metrics_model = example_model [''task_a'', ''task_b''] [''classification'', ''dependency'']
     [(''task_a'', example_decoder [] [(''task_a/acc'', Num 0.8)]),
      (''task_b'', example_decoder [] [(''task_b/las'', Sub [(''LAS'', 0.6), (''UAS'', 0.7)])])]"

text \<open>A decoder that reports a metric with the unrecognized suffix \<open>f1\<close>.\<close>

definition noisy_metrics_model :: "(real, unit, nat) machamp_model" where
  "noisy_metrics_model = example_model [''task_a''] [''classification'']
     [(''task_a'', example_decoder [] [(''task_a/f1'', Num 0.5), (''task_a/acc'', Num 0.8)])]"

text \<open>
  Two classification tasks, the first of them named \<open>class_probabilities\<close>.
\<close>

definition shadow_list_model :: "(real, unit, nat) machamp_model" where
  "shadow_list_model =
     example_model [''class_probabilities'', ''b''] [''classification'', ''classification'']
       [(''class_probabilities'', example_decoder [(''class_probabilities'', 7)] []),
        (''b'', example_decoder [(''class_probabilities'', 7)] [])]"

text \<open>
  A classification task named \<open>class_probabilities\<close>, whose decoder humanizes its output
  into a mapping with the key \<open>t_rels\<close>, before a dependency task \<open>t\<close>.
\<close>

definition mapping_decoder :: "(real, nat) decoder" where
  "mapping_decoder =
     \<lparr> dec_forward = (\<lambda>c s. (Inr [(''class_probabilities'', 7)], Suc s)),
       dec_human_readable = (\<lambda>p s. (Inr (Dict [(''t_rels'', 9)]), s)),
       dec_human_readable_dep = (\<lambda>tags heads m s. (Inr (Seq [Str ''root''], Seq [Tensor 0]), s)),
       dec_get_metrics = (\<lambda>reset s. (Inr [], if reset then 0 else s)) \<rparr>"

definition shadow_mapping_model :: "(real, unit, nat) machamp_model" where
  "shadow_mapping_model =
     example_model [''class_probabilities'', ''t''] [''classification'', ''dependency'']
       [(''class_probabilities'', mapping_decoder),
        (''t'', example_decoder [(''loss'', 1), (''t_rels'', 2), (''t_head_indices'', 3)] [])]"

section \<open>Lemmas about the selector\<close>

lemma select_tasks_filter:
  "first_col_idxs metadata = Inr cols \<Longrightarrow>
   select_tasks metadata pairs acc = Inr (acc @ filter (\<lambda>(t, ty). is_active cols t ty) pairs)"
  by (induction pairs arbitrary: acc) auto

section \<open>Lemmas about the dispatcher and the loss\<close>

lemma is_active_alt: "is_active cols t ty = (spec_is_active cols t ty \<or> has_key cols t)"
  by (auto simp: is_active_def spec_is_active_def spec_key_def)

lemma gold_present_alt: "gold_present g t ty = (spec_gold_present g t ty \<or> has_key g t)"
  by (auto simp: gold_present_def spec_gold_present_def spec_key_def)

lemma after_call_loss:
  "after_call g t ty p (lg, cp, loss) = Inr (lg', cp', loss') \<Longrightarrow>
   loss' = foldl (+) loss
             (if gold_present g t ty
              then (case map_of p ''loss'' of None \<Rightarrow> [] | Some l \<Rightarrow> [l]) else [])
   \<and> (gold_present g t ty \<longrightarrow> has_key p ''loss'')"
  by (auto simp: after_call_def py_get_def has_key_def Let_def
      split: sum.splits option.splits if_splits)

lemma selected_losses_Cons:
  "selected_losses pr ((t, ty, p) # xs) =
     (if pr t ty then (case map_of p ''loss'' of None \<Rightarrow> [] | Some l \<Rightarrow> [l]) else [])
     @ selected_losses pr xs"
  by (simp add: selected_losses_def)

lemma selected_losses_Nil: "selected_losses pr [] = []"
  by (simp add: selected_losses_def)

lemma dispatch_loss:
  "dispatch M g msk emb sent pairs (lg, cp, loss) st = (Inr (lg', cp', loss'), st') \<Longrightarrow>
   map (\<lambda>(t, ty, p). (t, ty)) (pred_outputs M g msk emb sent pairs st) = pairs
   \<and> loss' = foldl (+) loss (selected_losses (gold_present g) (pred_outputs M g msk emb sent pairs st))
   \<and> list_all (\<lambda>(t, ty, p). gold_present g t ty \<longrightarrow> has_key p ''loss'')
        (pred_outputs M g msk emb sent pairs st)"
proof (induction pairs arbitrary: lg cp loss st)
  case Nil
  then show ?case by (simp add: selected_losses_Nil)
next
  case (Cons a pairs)
  obtain t ty where a: "a = (t, ty)" by (cases a)
  from Cons.prems obtain p st1 where
    call: "call_decoder M g msk emb sent t ty st = (Inr p, st1)"
    unfolding a by (auto split: prod.splits sum.splits)
  from Cons.prems call obtain lg1 cp1 loss1 where
    ac: "after_call g t ty p (lg, cp, loss) = Inr (lg1, cp1, loss1)"
    and rest: "dispatch M g msk emb sent pairs (lg1, cp1, loss1) st1 = (Inr (lg', cp', loss'), st')"
    unfolding a by (auto split: sum.splits)
  note ih = Cons.IH[OF rest]
  note l1 = after_call_loss[OF ac]
  have po: "pred_outputs M g msk emb sent (a # pairs) st = (t, ty, p) # pred_outputs M g msk emb sent pairs st1"
    unfolding a using call by simp
  show ?case
    unfolding po using ih l1
    by (simp add: selected_losses_Cons a)
qed

lemma map_of_output_bundle_loss:
  "map_of (output_bundle M metadata g msk lg cp loss) ''loss'' =
     (if g \<noteq> [] then Some (Tensor loss) else None)"
  by (simp add: output_bundle_def Let_def update_conv' split: option.splits)

lemma map_of_output_bundle_cp:
  "map_of (output_bundle M metadata g msk lg cp loss) ''class_probabilities'' = Some (Dict cp)"
  by (simp add: output_bundle_def Let_def update_conv' split: option.splits)

lemma forward_Inr:
  "forward M toks metadata g st = (Inr out, st') \<Longrightarrow>
   \<exists>to_handle msk emb sent lg cp loss.
     select_tasks metadata (zip (tasks M) (task_types M)) [] = Inr to_handle
     \<and> shared_representation M toks to_handle = (msk, emb, sent)
     \<and> dispatch M g msk emb sent to_handle ([], [], 0) st = (Inr (lg, cp, loss), st')
     \<and> out = output_bundle M metadata g msk lg cp loss"
  by (auto simp: forward_def split: sum.splits prod.splits)

section \<open>Lemmas about the metric reducer\<close>

lemma extract_metric_None:
  "extract_metric name m = None \<longleftrightarrow> \<not> spec_recognized_suffix (last (split_slash name))"
  by (auto simp: extract_metric_def spec_recognized_suffix_def)

lemma tracked_values_Nil: "tracked_values track [] = []"
  by (simp add: tracked_values_def)

lemma tracked_values_Cons:
  "tracked_values track ((name, metric) # rest) =
     (if counts_in_sum track name then (case metric of Num v \<Rightarrow> [v] | Sub _ \<Rightarrow> []) else [])
     @ tracked_values track rest"
  by (auto simp: tracked_values_def counts_in_sum_def)

lemma sum_tracked_foldl:
  "sum_tracked track metrics s = Inr s' \<Longrightarrow> s' = foldl (+) s (tracked_values track metrics)"
proof (induction metrics arbitrary: s)
  case Nil
  then show ?case by (simp add: tracked_values_Nil)
next
  case (Cons a metrics)
  obtain name metric where a: "a = (name, metric)" by (cases a)
  show ?case
  proof (cases "counts_in_sum track name")
    case True
    with Cons.prems a obtain v where v: "metric = Num v"
      by (cases metric) auto
    with Cons.prems a True have "sum_tracked track metrics (s + v) = Inr s'" by simp
    from Cons.IH[OF this] show ?thesis
      by (simp add: a v True tracked_values_Cons)
  next
    case False
    with Cons.prems a have "sum_tracked track metrics s = Inr s'" by simp
    from Cons.IH[OF this] show ?thesis
      by (simp add: a False tracked_values_Cons)
  qed
qed

lemma update_fresh: "k \<notin> fst ` set al \<Longrightarrow> AList.update k v al = al @ [(k, v)]"
  by (induction al) auto

lemma reduce_items_keys:
  "reduce_items items metrics logged = (Inr metrics', logged') \<Longrightarrow>
   list_all (\<lambda>(name, v). spec_recognized_suffix (last (split_slash name))) metrics \<Longrightarrow>
   list_all (\<lambda>(name, v). spec_recognized_suffix (last (split_slash name))) metrics'"
proof (induction items arbitrary: metrics logged)
  case Nil
  then show ?case by simp
next
  case (Cons a items)
  obtain name m where a: "a = (name, m)" by (cases a)
  show ?case
  proof (cases "extract_metric name m")
    case None
    with Cons.prems a have "reduce_items items metrics (logged @ [name]) = (Inr metrics', logged')"
      by simp
    from Cons.IH[OF this Cons.prems(2)] show ?thesis .
  next
    case (Some r)
    with Cons.prems a obtain v where r: "r = Inr v" by (cases r) auto
    from Some have rec: "spec_recognized_suffix (last (split_slash name))"
      using extract_metric_None[of name m] by simp
    from Cons.prems a Some r
    have step: "reduce_items items (AList.update name v metrics) logged = (Inr metrics', logged')"
      by simp
    have "list_all (\<lambda>(name, v). spec_recognized_suffix (last (split_slash name)))
            (AList.update name v metrics)"
      using Cons.prems(2) rec
      by (induction metrics) (auto simp: list_all_iff)
    from Cons.IH[OF step this] show ?thesis .
  qed
qed

lemma collect_metrics_keys:
  "collect_metrics M reset ts metrics st logged = (Inr metrics', st', logged') \<Longrightarrow>
   list_all (\<lambda>(name, v). spec_recognized_suffix (last (split_slash name))) metrics \<Longrightarrow>
   list_all (\<lambda>(name, v). spec_recognized_suffix (last (split_slash name))) metrics'"
proof (induction ts arbitrary: metrics st logged)
  case Nil
  then show ?case by simp
next
  case (Cons task ts)
  from Cons.prems(1) obtain d where d: "decoders M task = Some d"
    by (cases "decoders M task") auto
  from Cons.prems(1) d obtain items s1 where
    g: "dec_get_metrics d reset (st task) = (Inr items, s1)"
    by (cases "dec_get_metrics d reset (st task)") (auto split: sum.splits)
  from Cons.prems(1) d g obtain m1 l1 where
    r: "reduce_items items metrics logged = (Inr m1, l1)"
    and rest: "collect_metrics M reset ts m1 (st(task := s1)) l1 = (Inr metrics', st', logged')"
    by (cases "reduce_items items metrics logged") (auto split: sum.splits)
  from Cons.IH[OF rest reduce_items_keys[OF r Cons.prems(2)]] show ?case .
qed

lemma sum_key_unrecognized: "\<not> spec_recognized_suffix (last (split_slash ''.run/.sum''))"
  by (simp add: spec_recognized_suffix_def lower_def lower_char_def)

lemma get_metrics_Inr:
  assumes "get_metrics M reset st = (Inr out, st', logged)"
  shows "\<exists>metrics. collect_metrics M reset (tasks M) [] st [] = (Inr metrics, st', logged)
      \<and> out = metrics @ [(''.run/.sum'',
                 Num (foldl (+) 0 (tracked_values (metrics_to_track M) metrics)))]"
proof -
  from assms obtain metrics s where
    c: "collect_metrics M reset (tasks M) [] st [] = (Inr metrics, st', logged)"
    and s: "sum_tracked (metrics_to_track M) metrics 0 = Inr s"
    and out: "out = AList.update ''.run/.sum'' (Num s) metrics"
    by (auto simp: get_metrics_def split: prod.splits sum.splits)
  have la: "list_all (\<lambda>(name, v). spec_recognized_suffix (last (split_slash name))) metrics"
    using collect_metrics_keys[OF c] by simp
  have "''.run/.sum'' \<notin> fst ` set metrics"
  proof
    assume "''.run/.sum'' \<in> fst ` set metrics"
    then obtain v where "(''.run/.sum'', v) \<in> set metrics" by auto
    with la have "spec_recognized_suffix (last (split_slash ''.run/.sum''))"
      unfolding list_all_iff by blast
    with sum_key_unrecognized show False by blast
  qed
  then show ?thesis
    using c s out sum_tracked_foldl[OF s] by (simp add: update_fresh)
qed

lemma reduce_items_unrecognized:
  "\<not> spec_recognized_suffix (last (split_slash name)) \<Longrightarrow>
   reduce_items ((name, m) # rest) metrics logged = reduce_items rest metrics (logged @ [name])"
  using extract_metric_None[of name m] by simp

lemma reduce_items_filter:
  "fst (reduce_items (filter (\<lambda>(name, m). spec_recognized_suffix (last (split_slash name))) items)
          metrics l1)
   = fst (reduce_items items metrics l2)"
proof (induction items arbitrary: metrics l1 l2)
  case Nil
  then show ?case by simp
next
  case (Cons a items)
  obtain name m where a: "a = (name, m)" by (cases a)
  show ?case
  proof (cases "extract_metric name m")
    case None
    then have "\<not> spec_recognized_suffix (last (split_slash name))"
      using extract_metric_None[of name m] by simp
    then show ?thesis using None Cons.IH by (simp add: a)
  next
    case (Some r)
    then have "spec_recognized_suffix (last (split_slash name))"
      using extract_metric_None[of name m] by simp
    then show ?thesis using Some Cons.IH by (cases r) (simp_all add: a)
  qed
qed

lemma collect_metrics_filter:
  "fst (collect_metrics (drop_unrecognized_metrics M) reset ts metrics st l1)
     = fst (collect_metrics M reset ts metrics st l2)
   \<and> fst (snd (collect_metrics (drop_unrecognized_metrics M) reset ts metrics st l1))
     = fst (snd (collect_metrics M reset ts metrics st l2))"
proof (induction ts arbitrary: metrics st l1 l2)
  case Nil
  then show ?case by simp
next
  case (Cons task ts)
  show ?case
  proof (cases "decoders M task")
    case None
    then show ?thesis by (simp add: drop_unrecognized_metrics_def)
  next
    case (Some d)
    obtain r s1 where g: "dec_get_metrics d reset (st task) = (r, s1)"
      by (cases "dec_get_metrics d reset (st task)")
    show ?thesis
    proof (cases r)
      case (Inl e)
      then show ?thesis using Some g
        by (simp add: drop_unrecognized_metrics_def without_unrecognized_def)
    next
      case (Inr items)
      let ?f = "filter (\<lambda>(name, m). spec_recognized_suffix (last (split_slash name))) items"
      obtain r1 k1 where a: "reduce_items ?f metrics l1 = (r1, k1)"
        by (cases "reduce_items ?f metrics l1")
      obtain r2 k2 where b: "reduce_items items metrics l2 = (r2, k2)"
        by (cases "reduce_items items metrics l2")
      have eq: "r1 = r2"
        using reduce_items_filter[of items metrics l1 l2] a b by simp
      have sel: "decoders (drop_unrecognized_metrics M) task = Some (without_unrecognized d)"
        using Some by (simp add: drop_unrecognized_metrics_def)
      have gm: "dec_get_metrics (without_unrecognized d) reset (st task) = (Inr ?f, s1)"
        using g Inr by (simp add: without_unrecognized_def)
      show ?thesis
      proof (cases r2)
        case (Inl e)
        then show ?thesis using Some sel gm g Inr a b eq by simp
      next
        case r2: (Inr m2)
        have lhs: "collect_metrics (drop_unrecognized_metrics M) reset (task # ts) metrics st l1
                     = collect_metrics (drop_unrecognized_metrics M) reset ts m2 (st(task := s1)) k1"
          using sel gm a eq r2 by simp
        have rhs: "collect_metrics M reset (task # ts) metrics st l2
                     = collect_metrics M reset ts m2 (st(task := s1)) k2"
          using Some g Inr b r2 by simp
        show ?thesis unfolding lhs rhs by (rule Cons.IH)
      qed
    qed
  qed
qed

lemma get_metrics_filter:
  "fst (get_metrics (drop_unrecognized_metrics M) reset st) = fst (get_metrics M reset st)
   \<and> fst (snd (get_metrics (drop_unrecognized_metrics M) reset st))
       = fst (snd (get_metrics M reset st))"
proof -
  have t: "metrics_to_track (drop_unrecognized_metrics M) = metrics_to_track M"
       "tasks (drop_unrecognized_metrics M) = tasks M"
    by (simp_all add: metrics_to_track_def drop_unrecognized_metrics_def)
  obtain r1 s1 k1 where a:
    "collect_metrics (drop_unrecognized_metrics M) reset (tasks M) [] st [] = (r1, s1, k1)"
    by (cases "collect_metrics (drop_unrecognized_metrics M) reset (tasks M) [] st []")
  obtain r2 s2 k2 where b: "collect_metrics M reset (tasks M) [] st [] = (r2, s2, k2)"
    by (cases "collect_metrics M reset (tasks M) [] st []")
  have eq: "r1 = r2" "s1 = s2"
    using collect_metrics_filter[of M reset "tasks M" "[]" st "[]" "[]"] a b by simp_all
  show ?thesis
    using a b eq by (simp add: get_metrics_def t split: sum.splits)
qed

lemma collect_metrics_readonly:
  assumes ro: "\<And>task d s. decoders M task = Some d \<Longrightarrow> snd (dec_get_metrics d False s) = s"
  shows "fst (snd (collect_metrics M False ts metrics st logged)) = st"
proof (induction ts arbitrary: metrics logged)
  case Nil
  then show ?case by simp
next
  case (Cons task ts)
  show ?case
  proof (cases "decoders M task")
    case None
    then show ?thesis by simp
  next
    case (Some d)
    obtain r s1 where g: "dec_get_metrics d False (st task) = (r, s1)"
      by (cases "dec_get_metrics d False (st task)")
    with ro[OF Some, of "st task"] have s1: "s1 = st task" by simp
    then have upd: "st(task := s1) = st" by simp
    show ?thesis
      using Some g upd Cons.IH
      by (auto split: sum.splits prod.splits)
  qed
qed

lemma get_metrics_state:
  "fst (snd (get_metrics M reset st)) = fst (snd (collect_metrics M reset (tasks M) [] st []))"
  by (auto simp: get_metrics_def split: prod.splits sum.splits)

section \<open>Lemmas about the humanizer and the class probabilities\<close>

lemma has_key_update: "has_key (AList.update k v al) k' = (k = k' \<or> has_key al k')"
  by (auto simp: has_key_def update_conv')

lemma rels_neq_heads: "a @ ''_rels'' \<noteq> b @ ''_head_indices''"
proof
  assume "a @ ''_rels'' = b @ ''_head_indices''"
  then have "rev (a @ ''_rels'') = rev (b @ ''_head_indices'')" by simp
  then show False by simp
qed

lemma loss_neq_rels: "''loss'' \<noteq> a @ ''_rels''"
proof
  assume "''loss'' = a @ ''_rels''"
  then have "length ''loss'' = length (a @ ''_rels'')" by simp
  then show False by simp
qed

lemma loss_neq_heads: "''loss'' \<noteq> a @ ''_head_indices''"
proof
  assume "''loss'' = a @ ''_head_indices''"
  then have "length ''loss'' = length (a @ ''_head_indices'')" by simp
  then show False by simp
qed

lemma humanize_entry_loss:
  assumes "humanize_entry M task cp out st = (Inr out', st')" and "task \<noteq> ''loss''"
  shows "map_of out' ''loss'' = map_of out ''loss''"
  using assms
  by (auto simp: humanize_entry_def update_conv' split: sum.splits option.splits prod.splits)

lemma humanize_dependency_loss:
  assumes "humanize_dependency M task cp out st = (Inr out', st')"
  shows "map_of out' ''loss'' = map_of out ''loss''"
  using assms loss_neq_rels[of task] loss_neq_heads[of task]
  by (auto simp: humanize_dependency_def update_conv' split: sum.splits option.splits prod.splits)

lemma humanize_task_cases:
  assumes "humanize_task M task out st = (Inr out', st')"
  shows "(out' = out \<and> st' = st)
       \<or> (\<exists>cp. humanize_entry M task cp out st = (Inr out', st'))
       \<or> (\<exists>cp. humanize_dependency M task cp out st = (Inr out', st'))"
  using assms
  by (auto simp: humanize_task_def Let_def split: sum.splits if_splits)

lemma humanize_task_loss:
  assumes "humanize_task M task out st = (Inr out', st')" and "task \<noteq> ''loss''"
  shows "map_of out' ''loss'' = map_of out ''loss''"
  using humanize_task_cases[OF assms(1)] humanize_entry_loss[OF _ assms(2)]
    humanize_dependency_loss
  by blast

lemma humanize_tasks_loss:
  "humanize_tasks M ts out st = (Inr out', st') \<Longrightarrow> ''loss'' \<notin> set ts \<Longrightarrow>
   map_of out' ''loss'' = map_of out ''loss''"
proof (induction ts arbitrary: out st)
  case Nil
  then show ?case by simp
next
  case (Cons task ts)
  from Cons.prems(1) obtain out1 st1 where
    h: "humanize_task M task out st = (Inr out1, st1)"
    and r: "humanize_tasks M ts out1 st1 = (Inr out', st')"
    by (auto split: prod.splits sum.splits)
  from Cons.prems(2) have "task \<noteq> ''loss''" "''loss'' \<notin> set ts" by auto
  with Cons.IH[OF r] humanize_task_loss[OF h] show ?case by simp
qed

lemma store_probabilities_pair:
  assumes "store_probabilities task ty p cp = Inr cp'"
      and "task \<noteq> t @ ''_rels''" and "task \<noteq> t @ ''_head_indices''"
      and "has_key cp (t @ ''_rels'') = has_key cp (t @ ''_head_indices'')"
  shows "has_key cp' (t @ ''_rels'') = has_key cp' (t @ ''_head_indices'')"
  using assms rels_neq_heads[of task t] rels_neq_heads[of t task]
  by (auto simp: store_probabilities_def has_key_update split: if_splits sum.splits)

lemma after_call_pair:
  assumes "after_call g task ty p (lg, cp, loss) = Inr (lg', cp', loss')"
      and "task \<noteq> t @ ''_rels''" and "task \<noteq> t @ ''_head_indices''"
      and "has_key cp (t @ ''_rels'') = has_key cp (t @ ''_head_indices'')"
  shows "has_key cp' (t @ ''_rels'') = has_key cp' (t @ ''_head_indices'')"
proof -
  from assms(1) obtain cp1 where s: "store_probabilities task ty p cp = Inr cp1" and "cp' = cp1"
    by (auto simp: after_call_def Let_def split: sum.splits if_splits)
  with store_probabilities_pair[OF s assms(2,3,4)] show ?thesis by simp
qed

lemma dispatch_pair:
  "dispatch M g msk emb sent pairs (lg, cp, loss) st = (Inr (lg', cp', loss'), st') \<Longrightarrow>
   t @ ''_rels'' \<notin> fst ` set pairs \<Longrightarrow> t @ ''_head_indices'' \<notin> fst ` set pairs \<Longrightarrow>
   has_key cp (t @ ''_rels'') = has_key cp (t @ ''_head_indices'') \<Longrightarrow>
   has_key cp' (t @ ''_rels'') = has_key cp' (t @ ''_head_indices'')"
proof (induction pairs arbitrary: lg cp loss st)
  case Nil
  then show ?case by simp
next
  case (Cons a pairs)
  obtain task ty where a: "a = (task, ty)" by (cases a)
  from Cons.prems(1) obtain p st1 where
    call: "call_decoder M g msk emb sent task ty st = (Inr p, st1)"
    unfolding a by (auto split: prod.splits sum.splits)
  from Cons.prems(1) call obtain lg1 cp1 loss1 where
    ac: "after_call g task ty p (lg, cp, loss) = Inr (lg1, cp1, loss1)"
    and rest: "dispatch M g msk emb sent pairs (lg1, cp1, loss1) st1 = (Inr (lg', cp', loss'), st')"
    unfolding a by (auto split: sum.splits)
  from Cons.prems(2,3) have n: "task \<noteq> t @ ''_rels''" "task \<noteq> t @ ''_head_indices''"
    and n': "t @ ''_rels'' \<notin> fst ` set pairs" "t @ ''_head_indices'' \<notin> fst ` set pairs"
    unfolding a by auto
  from after_call_pair[OF ac n Cons.prems(4)]
  show ?case using Cons.IH[OF rest n'] by simp
qed

lemma select_tasks_subset:
  "select_tasks metadata pairs acc = Inr r \<Longrightarrow> set r \<subseteq> set acc \<union> set pairs"
proof (induction pairs arbitrary: acc)
  case Nil
  then show ?case by simp
next
  case (Cons a pairs)
  obtain task ty where a: "a = (task, ty)" by (cases a)
  from Cons.prems obtain cols where c: "first_col_idxs metadata = Inr cols"
    unfolding a by (auto split: sum.splits)
  with Cons.prems have
    "select_tasks metadata pairs (if is_active cols task ty then acc @ [(task, ty)] else acc) = Inr r"
    unfolding a by simp
  from Cons.IH[OF this] show ?case unfolding a by (auto split: if_splits)
qed



lemma forward_nothing_to_handle:
  assumes "select_tasks metadata (zip (tasks M) (task_types M)) [] = Inr []"
  shows "forward M toks metadata g st =
           (Inr (output_bundle M metadata g (get_text_field_mask M toks) [] [] 0), st)"
  using assms
  by (simp add: forward_def shared_representation_def Let_def split: option.splits prod.splits)

lemma map_of_output_bundle_logits:
  "map_of (output_bundle M metadata g msk lg cp loss) ''logits'' = Some (Dict lg)"
  by (simp add: output_bundle_def Let_def update_conv' split: option.splits)

section \<open>Lemmas about the key errors of the humanizer\<close>

lemma class_probabilities_neq_rels: "''class_probabilities'' \<noteq> a @ ''_rels''"
proof
  assume "''class_probabilities'' = a @ ''_rels''"
  then have "rev ''class_probabilities'' = rev (a @ ''_rels'')" by simp
  then show False by simp
qed

lemma class_probabilities_neq_heads: "''class_probabilities'' \<noteq> a @ ''_head_indices''"
proof
  assume "''class_probabilities'' = a @ ''_head_indices''"
  then have "rev ''class_probabilities'' = rev (a @ ''_head_indices'')" by simp
  then show False by simp
qed

lemma mask_neq_heads: "''mask'' \<noteq> a @ ''_head_indices''"
proof
  assume "''mask'' = a @ ''_head_indices''"
  then have "length ''mask'' = length (a @ ''_head_indices'')" by simp
  then show False by simp
qed

lemma humanize_task_class_probabilities:
  assumes "humanize_task M task out st = (Inr out', st')"
      and "task \<noteq> ''class_probabilities''"
  shows "map_of out' ''class_probabilities'' = map_of out ''class_probabilities''"
proof -
  from humanize_task_cases[OF assms(1)] consider
    "out' = out"
    | cp where "humanize_entry M task cp out st = (Inr out', st')"
    | cp where "humanize_dependency M task cp out st = (Inr out', st')"
    by blast
  then show ?thesis
  proof cases
    case 1
    then show ?thesis by simp
  next
    case 2
    with assms(2) show ?thesis
      by (auto simp: humanize_entry_def update_conv'
          split: sum.splits option.splits prod.splits)
  next
    case 3
    with class_probabilities_neq_rels[of task] class_probabilities_neq_heads[of task]
    show ?thesis
      by (auto simp: humanize_dependency_def update_conv'
          split: sum.splits option.splits prod.splits)
  qed
qed

lemma index_of_error: "index_of xs x = Inl e \<Longrightarrow> e = ValueError"
  by (induction xs arbitrary: e) (auto split: if_splits sum.splits)

lemma task_type_of_error: "task_type_of M task \<noteq> Inl (KeyError k)"
proof
  assume a: "task_type_of M task = Inl (KeyError k)"
  show False
  proof (cases "index_of (tasks M) task")
    case (Inl e)
    with index_of_error[OF Inl] a show False by (simp add: task_type_of_def)
  next
    case (Inr i)
    with a show False by (simp add: task_type_of_def split: if_splits)
  qed
qed

text \<open>
  One iteration that reads the mapping \<open>cp\<close> of \<open>forward\<close>: a \<open>KeyError\<close> that no decoder
  raises is that of the decoder lookup or of the mask, when \<open>cp\<close> has the head indices
  wherever it has the relations.
\<close>

lemma humanize_task_key_error:
  assumes cp: "map_of out ''class_probabilities'' = Some (Dict cp)"
      and pair: "has_key cp (task @ ''_rels'') \<Longrightarrow> has_key cp (task @ ''_head_indices'')"
      and d1: "\<And>d p s. decoders M task = Some d \<Longrightarrow> fst (dec_human_readable d p s) \<noteq> Inl (KeyError k)"
      and d2: "\<And>d a b m s. decoders M task = Some d \<Longrightarrow>
                 fst (dec_human_readable_dep d a b m s) \<noteq> Inl (KeyError k)"
      and err: "fst (humanize_task M task out st) = Inl (KeyError k)"
  shows "k = task \<or> k = ''mask''"
proof (cases "task_type_of M task")
  case (Inl e)
  with err task_type_of_error[of M task k] show ?thesis
    by (simp add: humanize_task_def)
next
  case (Inr ty)
  show ?thesis
  proof (cases "has_key cp task")
    case True
    then obtain x where x: "map_of cp task = Some x" by (auto simp: has_key_def)
    have h: "humanize_task M task out st = humanize_entry M task (Dict cp) out st"
      using Inr cp True by (simp add: humanize_task_def py_get_def py_contains_def)
    show ?thesis
    proof (cases "decoders M task")
      case None
      with err h show ?thesis by (simp add: humanize_entry_def)
    next
      case (Some d)
      obtain r s' where r: "dec_human_readable d (Tensor x) (st task) = (r, s')"
        by (cases "dec_human_readable d (Tensor x) (st task)")
      with d1[OF Some, of "Tensor x" "st task"] have "r \<noteq> Inl (KeyError k)" by simp
      with err h Some x r show ?thesis
        by (cases r) (auto simp: humanize_entry_def py_getitem_def)
    qed
  next
    case False
    show ?thesis
    proof (cases "ty = ''dependency'' \<and> has_key cp (task @ ''_rels'')")
      case no: False
      with Inr cp False have "humanize_task M task out st = (Inr out, st)"
        by (auto simp: humanize_task_def py_get_def py_contains_def)
      with err show ?thesis by simp
    next
      case yes: True
      then have hr: "has_key cp (task @ ''_rels'')" by simp
      from pair[OF hr] obtain a b where
        a: "map_of cp (task @ ''_rels'') = Some a"
        and b: "map_of cp (task @ ''_head_indices'') = Some b"
        using hr by (auto simp: has_key_def)
      have h: "humanize_task M task out st = humanize_dependency M task (Dict cp) out st"
        using Inr cp False yes by (simp add: humanize_task_def py_get_def py_contains_def)
      have l: "dep_lookup (Dict cp) task = Inr (Tensor a, Tensor b)"
        using a b by (simp add: dep_lookup_def py_getitem_def)
      show ?thesis
      proof (cases "map_of out ''mask''")
        case None
        with err h l show ?thesis by (simp add: humanize_dependency_def py_get_def)
      next
        case (Some m)
        show ?thesis
        proof (cases "decoders M task")
          case None
          with err h l Some show ?thesis by (simp add: humanize_dependency_def py_get_def)
        next
          case d: (Some d)
          obtain r s' where r: "dec_human_readable_dep d (Tensor a) (Tensor b) m (st task) = (r, s')"
            by (cases "dec_human_readable_dep d (Tensor a) (Tensor b) m (st task)")
          with d2[OF d, of "Tensor a" "Tensor b" m "st task"] have "r \<noteq> Inl (KeyError k)" by simp
          with err h l Some d r show ?thesis
            by (cases r) (auto simp: humanize_dependency_def py_get_def)
        qed
      qed
    qed
  qed
qed

lemma humanize_tasks_key_error:
  assumes d1: "\<And>task d p s. decoders M task = Some d \<Longrightarrow>
                 fst (dec_human_readable d p s) \<noteq> Inl (KeyError k)"
      and d2: "\<And>task d a b m s. decoders M task = Some d \<Longrightarrow>
                 fst (dec_human_readable_dep d a b m s) \<noteq> Inl (KeyError k)"
  shows "map_of out ''class_probabilities'' = Some (Dict cp) \<Longrightarrow>
         (\<And>t. t \<in> set ts \<Longrightarrow> has_key cp (t @ ''_rels'') \<Longrightarrow> has_key cp (t @ ''_head_indices'')) \<Longrightarrow>
         ''class_probabilities'' \<notin> set ts \<Longrightarrow>
         fst (humanize_tasks M ts out st) = Inl (KeyError k) \<Longrightarrow>
         k \<in> set ts \<or> k = ''mask''"
proof (induction ts arbitrary: out st)
  case Nil
  then show ?case by simp
next
  case (Cons task ts)
  obtain r st1 where h: "humanize_task M task out st = (r, st1)"
    by (cases "humanize_task M task out st")
  show ?case
  proof (cases r)
    case (Inl e)
    with Cons.prems(4) h have e: "fst (humanize_task M task out st) = Inl (KeyError k)" by simp
    have "k = task \<or> k = ''mask''"
    proof (rule humanize_task_key_error[where M = M and out = out and st = st and cp = cp])
      show "map_of out ''class_probabilities'' = Some (Dict cp)" by (rule Cons.prems(1))
      show "has_key cp (task @ ''_rels'') \<Longrightarrow> has_key cp (task @ ''_head_indices'')"
        using Cons.prems(2)[of task] by simp
      show "\<And>d p s. decoders M task = Some d \<Longrightarrow> fst (dec_human_readable d p s) \<noteq> Inl (KeyError k)"
        by (rule d1)
      show "\<And>d a b m s. decoders M task = Some d \<Longrightarrow>
              fst (dec_human_readable_dep d a b m s) \<noteq> Inl (KeyError k)"
        by (rule d2)
      show "fst (humanize_task M task out st) = Inl (KeyError k)" by (rule e)
    qed
    then show ?thesis by auto
  next
    case (Inr out1)
    from Cons.prems(3) have n: "task \<noteq> ''class_probabilities''" "''class_probabilities'' \<notin> set ts"
      by auto
    have cp1: "map_of out1 ''class_probabilities'' = Some (Dict cp)"
      using humanize_task_class_probabilities[OF h[unfolded Inr] n(1)] Cons.prems(1) by simp
    have rest: "fst (humanize_tasks M ts out1 st1) = Inl (KeyError k)"
      using Cons.prems(4) h Inr by simp
    have "k \<in> set ts \<or> k = ''mask''"
    proof (rule Cons.IH[OF cp1 _ n(2) rest])
      fix t assume "t \<in> set ts" "has_key cp (t @ ''_rels'')"
      then show "has_key cp (t @ ''_head_indices'')" using Cons.prems(2)[of t] by simp
    qed
    then show ?thesis by auto
  qed
qed

lemma make_output_human_readable_key_error:
  assumes d1: "\<And>task d p s. decoders M task = Some d \<Longrightarrow>
                 fst (dec_human_readable d p s) \<noteq> Inl (KeyError k)"
      and d2: "\<And>task d a b m s. decoders M task = Some d \<Longrightarrow>
                 fst (dec_human_readable_dep d a b m s) \<noteq> Inl (KeyError k)"
      and cp: "map_of out ''class_probabilities'' = Some (Dict cp)"
      and pair: "\<And>t. t \<in> set (tasks M) \<Longrightarrow> has_key cp (t @ ''_rels'')
                   \<Longrightarrow> has_key cp (t @ ''_head_indices'')"
      and cpn: "''class_probabilities'' \<notin> set (tasks M)"
      and err: "fst (make_output_human_readable M out st) = Inl (KeyError k)"
  shows "k \<in> set (tasks M) \<or> k = ''mask'' \<or> k = ''loss''"
proof (cases "humanize_tasks M (tasks M) out st")
  case (Pair r st1)
  show ?thesis
  proof (cases r)
    case (Inl e)
    with Pair err have e: "fst (humanize_tasks M (tasks M) out st) = Inl (KeyError k)"
      by (simp add: make_output_human_readable_def)
    have "k \<in> set (tasks M) \<or> k = ''mask''"
    proof (rule humanize_tasks_key_error[where M = M and out = out and st = st and cp = cp])
      show "\<And>task d p s. decoders M task = Some d \<Longrightarrow>
              fst (dec_human_readable d p s) \<noteq> Inl (KeyError k)" by (rule d1)
      show "\<And>task d a b m s. decoders M task = Some d \<Longrightarrow>
              fst (dec_human_readable_dep d a b m s) \<noteq> Inl (KeyError k)" by (rule d2)
      show "map_of out ''class_probabilities'' = Some (Dict cp)" by (rule cp)
      show "\<And>t. t \<in> set (tasks M) \<Longrightarrow> has_key cp (t @ ''_rels'')
              \<Longrightarrow> has_key cp (t @ ''_head_indices'')" by (rule pair)
      show "''class_probabilities'' \<notin> set (tasks M)" by (rule cpn)
      show "fst (humanize_tasks M (tasks M) out st) = Inl (KeyError k)" by (rule e)
    qed
    then show ?thesis by blast
  next
    case (Inr out1)
    with Pair err show ?thesis
      by (auto simp: make_output_human_readable_def wrap_zero_loss_def py_get_def
          split: option.splits if_splits)
  qed
qed

lemma forward_class_probabilities_pair:
  assumes "forward M toks metadata gold_labels st = (Inr out, st')"
  shows "\<exists>cp. map_of out ''class_probabilities'' = Some (Dict cp)
           \<and> (\<forall>t. t @ ''_rels'' \<notin> set (tasks M) \<and> t @ ''_head_indices'' \<notin> set (tasks M) \<longrightarrow>
                  has_key cp (t @ ''_rels'') = has_key cp (t @ ''_head_indices''))"
proof -
  from forward_Inr[OF assms(1)] obtain to_handle msk emb sent lg cp loss where
    sel: "select_tasks metadata (zip (tasks M) (task_types M)) [] = Inr to_handle"
    and d: "dispatch M gold_labels msk emb sent to_handle ([], [], 0) st = (Inr (lg, cp, loss), st')"
    and out: "out = output_bundle M metadata gold_labels msk lg cp loss"
    by blast
  have sub: "fst ` set to_handle \<subseteq> set (tasks M)"
  proof
    fix x assume "x \<in> fst ` set to_handle"
    then obtain ty where "(x, ty) \<in> set to_handle" by auto
    with select_tasks_subset[OF sel] have "(x, ty) \<in> set (zip (tasks M) (task_types M))" by auto
    then show "x \<in> set (tasks M)" by (rule set_zip_leftD)
  qed
  have "has_key cp (t @ ''_rels'') = has_key cp (t @ ''_head_indices'')"
    if "t @ ''_rels'' \<notin> set (tasks M)" "t @ ''_head_indices'' \<notin> set (tasks M)" for t
  proof -
    from that sub have n: "t @ ''_rels'' \<notin> fst ` set to_handle"
      "t @ ''_head_indices'' \<notin> fst ` set to_handle" by auto
    show ?thesis using dispatch_pair[OF d n] by (simp add: has_key_def)
  qed
  with out show ?thesis by (simp add: map_of_output_bundle_cp)
qed

section \<open>The claims\<close>

subsection \<open>C1: the aggregated loss\<close>

text \<open>
  C1, as the code has it. Whenever \<open>forward\<close> returns, every task to handle has been
  dispatched, in order, and the accumulated loss is the left-to-right sum, from \<open>0\<close>, of
  \<open>pred_output['loss']\<close> over exactly the handled tasks whose gold label is present, where
  present means: the key of section 4.1 for the task's type is in the gold-label bundle,
  or the plain task name is. Every such task's decoder has returned a loss. The sum is
  stored under \<open>loss\<close> when the gold-label bundle is not empty.
\<close>

theorem aggregated_loss_sum:
  assumes "forward M toks metadata gold_labels st = (Inr out, st')"
      and "select_tasks metadata (zip (tasks M) (task_types M)) [] = Inr to_handle"
      and "shared_representation M toks to_handle = (msk, embedded_text, embedded_text_sent)"
      and "outs = pred_outputs M gold_labels msk embedded_text embedded_text_sent to_handle st"
  shows "map (\<lambda>(task, task_type, pred_output). (task, task_type)) outs = to_handle
       \<and> list_all (\<lambda>(task, task_type, pred_output).
                     (spec_gold_present gold_labels task task_type \<or> has_key gold_labels task)
                       \<longrightarrow> has_key pred_output ''loss'') outs
       \<and> map_of out ''loss'' =
           (if gold_labels = [] then None
            else Some (Tensor (loss_sum (\<lambda>task task_type.
                         spec_gold_present gold_labels task task_type \<or> has_key gold_labels task)
                       outs)))"
proof -
  from forward_Inr[OF assms(1)] assms(2,3) obtain lg cp loss where
    d: "dispatch M gold_labels msk embedded_text embedded_text_sent to_handle ([], [], 0) st
          = (Inr (lg, cp, loss), st')"
    and out: "out = output_bundle M metadata gold_labels msk lg cp loss"
    by auto
  have p: "gold_present gold_labels =
             (\<lambda>task task_type. spec_gold_present gold_labels task task_type \<or> has_key gold_labels task)"
    by (intro ext) (rule gold_present_alt)
  from dispatch_loss[OF d] show ?thesis
    unfolding assms(4) out p by (simp add: map_of_output_bundle_loss loss_sum_def)
qed

text \<open>
  The theorem at the one-task model: the dependency task \<open>t\<close> is handled, its gold key
  \<open>t_rels\<close> is present, and the loss is the decoder's \<open>1\<close>.
\<close>

theorem aggregated_loss_sum_witness:
  "forward dep_model () (example_metadata [(''t_rels'', 0)]) [(''t_rels'', 5)] (\<lambda>_. 0) =
     (Inr [(''logits'', Dict [(''t'', 1)]),
           (''class_probabilities'', Dict [(''t_rels'', 2), (''t_head_indices'', 3)]),
           (''loss'', Tensor 1), (''tokens'', Seq [Seq []]), (''full_data'', Seq [Seq []]),
           (''col_idxs'', Seq [Cols [(''t_rels'', 0)]]), (''tasks'', Seq [Seq [Str ''t'']]),
           (''task_types'', Seq [Seq [Str ''dependency'']]), (''mask'', Tensor 1)],
      (\<lambda>_. 0)(''t'' := Suc 0))
   \<and> select_tasks (example_metadata [(''t_rels'', 0)]) (zip (tasks dep_model) (task_types dep_model)) []
       = Inr [(''t'', ''dependency'')]
   \<and> shared_representation dep_model () [(''t'', ''dependency'')] = (1, 0, None)
   \<and> loss_sum (\<lambda>task task_type. spec_gold_present [(''t_rels'', 5 :: real)] task task_type
                                  \<or> has_key [(''t_rels'', 5 :: real)] task)
        (pred_outputs dep_model [(''t_rels'', 5)] 1 0 None [(''t'', ''dependency'')] (\<lambda>_. 0)) = 1"
proof -
  have f: "forward dep_model () (example_metadata [(''t_rels'', 0)]) [(''t_rels'', 5)] (\<lambda>_. 0) =
     (Inr [(''logits'', Dict [(''t'', 1)]),
           (''class_probabilities'', Dict [(''t_rels'', 2), (''t_head_indices'', 3)]),
           (''loss'', Tensor 1), (''tokens'', Seq [Seq []]), (''full_data'', Seq [Seq []]),
           (''col_idxs'', Seq [Cols [(''t_rels'', 0)]]), (''tasks'', Seq [Seq [Str ''t'']]),
           (''task_types'', Seq [Seq [Str ''dependency'']]), (''mask'', Tensor 1)],
      (\<lambda>_. 0)(''t'' := Suc 0))"
    by (simp add: forward_def first_col_idxs_def is_active_def has_key_def
        shared_representation_def call_decoder_def decoder_call_def after_call_def
        store_probabilities_def py_get_def gold_present_def output_bundle_def
        example_decoder_def example_model_def example_metadata_def dep_model_def)
  have s: "select_tasks (example_metadata [(''t_rels'', 0)])
             (zip (tasks dep_model) (task_types dep_model)) [] = Inr [(''t'', ''dependency'')]"
    by (simp add: forward_def first_col_idxs_def is_active_def has_key_def
        shared_representation_def call_decoder_def decoder_call_def after_call_def
        store_probabilities_def py_get_def gold_present_def output_bundle_def
        example_decoder_def example_model_def example_metadata_def dep_model_def)
  have r: "shared_representation dep_model () [(''t'', ''dependency'')] = (1, 0, None)"
    by (simp add: forward_def first_col_idxs_def is_active_def has_key_def
        shared_representation_def call_decoder_def decoder_call_def after_call_def
        store_probabilities_def py_get_def gold_present_def output_bundle_def
        example_decoder_def example_model_def example_metadata_def dep_model_def)
  from aggregated_loss_sum[OF f s r refl] f s r show ?thesis by simp
qed

text \<open>
  The claim as worded fails where a dependency task has its plain name, and not
  \<open>t_rels\<close>, among the gold labels: by the rule of section 4.1 the task contributes
  nothing, so the sum is \<open>0\<close>, and yet \<open>forward\<close> adds the decoder's loss \<open>1\<close>.
\<close>

theorem loss_counts_plain_gold_key:
  "fst (forward dep_model () (example_metadata [(''t'', 0)]) [(''t'', 5)] (\<lambda>_. 0)) =
     Inr [(''logits'', Dict [(''t'', 1)]),
          (''class_probabilities'', Dict [(''t_rels'', 2), (''t_head_indices'', 3)]),
          (''loss'', Tensor 1), (''tokens'', Seq [Seq []]), (''full_data'', Seq [Seq []]),
          (''col_idxs'', Seq [Cols [(''t'', 0)]]), (''tasks'', Seq [Seq [Str ''t'']]),
          (''task_types'', Seq [Seq [Str ''dependency'']]), (''mask'', Tensor 1)]
   \<and> \<not> spec_gold_present [(''t'', 5 :: real)] ''t'' ''dependency''
   \<and> loss_sum (spec_gold_present [(''t'', 5 :: real)])
        (pred_outputs dep_model [(''t'', 5)] 1 0 None [(''t'', ''dependency'')] (\<lambda>_. 0)) = 0"
  by (simp add: forward_def first_col_idxs_def is_active_def has_key_def
      shared_representation_def call_decoder_def decoder_call_def after_call_def
      store_probabilities_def py_get_def gold_present_def output_bundle_def example_decoder_def
      example_model_def example_metadata_def dep_model_def spec_gold_present_def spec_key_def
      loss_sum_def selected_losses_def)

subsection \<open>C2: the active tasks\<close>

text \<open>
  C2, as the code has it. When the first example has column indices, the tasks to handle
  are, in registry order, exactly the registry's pairs for which the key of section 4.1
  for the task's type, or the plain task name, is in \<open>col_idxs\<close>: a sequence-to-sequence
  or dependency task whose special key is absent is still active when its plain name is a
  column.
\<close>

theorem active_iff_special_or_plain_key:
  assumes "first_col_idxs metadata = Inr cols"
  shows "select_tasks metadata (zip (tasks M) (task_types M)) [] =
           Inr (filter (\<lambda>(task, task_type).
                          spec_is_active cols task task_type \<or> has_key cols task)
                  (zip (tasks M) (task_types M)))"
proof -
  have "(\<lambda>(task, task_type). is_active cols task task_type) =
        (\<lambda>(task, task_type). spec_is_active cols task task_type \<or> has_key cols task)"
    by (intro ext) (simp add: is_active_alt split: prod.splits)
  with select_tasks_filter[OF assms, of "zip (tasks M) (task_types M)" "[]"]
  show ?thesis by simp
qed

theorem active_iff_special_or_plain_key_witness:
  "first_col_idxs (example_metadata [(''t_rels_target_words'', 0)]) = Inr [(''t_rels_target_words'', 0)]
   \<and> select_tasks (example_metadata [(''t_rels_target_words'', 0)])
        (zip (tasks clash_model) (task_types clash_model)) [] = Inr [(''t_rels'', ''seq2seq'')]"
proof -
  have h: "first_col_idxs (example_metadata [(''t_rels_target_words'', 0)])
             = Inr [(''t_rels_target_words'', 0)]"
    by (simp add: first_col_idxs_def example_decoder_def example_model_def example_metadata_def
        clash_model_def)
  from active_iff_special_or_plain_key[OF h, of clash_model] h show ?thesis
    by (simp add: example_decoder_def example_model_def example_metadata_def clash_model_def
        spec_is_active_def spec_key_def has_key_def)
qed

text \<open>
  The claim as worded fails for a dependency task whose plain name is a column while
  \<open>t_rels\<close> is not: the task is handled.
\<close>

theorem dependency_active_without_rels:
  "select_tasks (example_metadata [(''t'', 0)]) (zip (tasks dep_model) (task_types dep_model)) []
     = Inr [(''t'', ''dependency'')]
   \<and> \<not> has_key [(''t'', 0 :: nat)] ''t_rels''
   \<and> \<not> spec_is_active [(''t'', 0)] ''t'' ''dependency''"
  by (simp add: example_decoder_def example_model_def example_metadata_def dep_model_def
      first_col_idxs_def is_active_def has_key_def spec_is_active_def spec_key_def)

subsection \<open>C3: the loss key\<close>

text \<open>
  C3. The bundle \<open>forward\<close> returns has a \<open>loss\<close> key exactly when the gold-label bundle is
  not empty.
\<close>

theorem loss_key_iff_gold_nonempty:
  assumes "forward M toks metadata gold_labels st = (Inr out, st')"
  shows "has_key out ''loss'' = (gold_labels \<noteq> [])"
proof -
  from forward_Inr[OF assms] obtain msk lg cp loss where
    "out = output_bundle M metadata gold_labels msk lg cp loss" by blast
  then show ?thesis by (simp add: has_key_def map_of_output_bundle_loss)
qed

text \<open>The theorem on an empty and on a non-empty gold-label bundle.\<close>

theorem loss_key_iff_gold_nonempty_witness:
  "forward dep_model () (example_metadata [(''t'', 0)]) [] (\<lambda>_. 0) =
     (Inr [(''logits'', Dict [(''t'', 1)]),
           (''class_probabilities'', Dict [(''t_rels'', 2), (''t_head_indices'', 3)]),
           (''tokens'', Seq [Seq []]), (''full_data'', Seq [Seq []]),
           (''col_idxs'', Seq [Cols [(''t'', 0)]]), (''tasks'', Seq [Seq [Str ''t'']]),
           (''task_types'', Seq [Seq [Str ''dependency'']]), (''mask'', Tensor 1)],
      (\<lambda>_. 0)(''t'' := Suc 0))
   \<and> \<not> has_key [(''logits'', Dict [(''t'', 1 :: real)]),
           (''class_probabilities'', Dict [(''t_rels'', 2), (''t_head_indices'', 3)]),
           (''tokens'', Seq [Seq []]), (''full_data'', Seq [Seq []]),
           (''col_idxs'', Seq [Cols [(''t'', 0)]]), (''tasks'', Seq [Seq [Str ''t'']]),
           (''task_types'', Seq [Seq [Str ''dependency'']]), (''mask'', Tensor 1)] ''loss''
   \<and> forward dep_model () (example_metadata [(''t'', 0)]) [(''u'', 5)] (\<lambda>_. 0) =
     (Inr [(''logits'', Dict [(''t'', 1)]),
           (''class_probabilities'', Dict [(''t_rels'', 2), (''t_head_indices'', 3)]),
           (''loss'', Tensor 0), (''tokens'', Seq [Seq []]), (''full_data'', Seq [Seq []]),
           (''col_idxs'', Seq [Cols [(''t'', 0)]]), (''tasks'', Seq [Seq [Str ''t'']]),
           (''task_types'', Seq [Seq [Str ''dependency'']]), (''mask'', Tensor 1)],
      (\<lambda>_. 0)(''t'' := Suc 0))"
proof -
  have f: "forward dep_model () (example_metadata [(''t'', 0)]) [] (\<lambda>_. 0) =
     (Inr [(''logits'', Dict [(''t'', 1)]),
           (''class_probabilities'', Dict [(''t_rels'', 2), (''t_head_indices'', 3)]),
           (''tokens'', Seq [Seq []]), (''full_data'', Seq [Seq []]),
           (''col_idxs'', Seq [Cols [(''t'', 0)]]), (''tasks'', Seq [Seq [Str ''t'']]),
           (''task_types'', Seq [Seq [Str ''dependency'']]), (''mask'', Tensor 1)],
      (\<lambda>_. 0)(''t'' := Suc 0))"
    by (simp add: forward_def first_col_idxs_def is_active_def has_key_def
        shared_representation_def call_decoder_def decoder_call_def after_call_def
        store_probabilities_def py_get_def gold_present_def output_bundle_def
        example_decoder_def example_model_def example_metadata_def dep_model_def)
  have g: "forward dep_model () (example_metadata [(''t'', 0)]) [(''u'', 5)] (\<lambda>_. 0) =
     (Inr [(''logits'', Dict [(''t'', 1)]),
           (''class_probabilities'', Dict [(''t_rels'', 2), (''t_head_indices'', 3)]),
           (''loss'', Tensor 0), (''tokens'', Seq [Seq []]), (''full_data'', Seq [Seq []]),
           (''col_idxs'', Seq [Cols [(''t'', 0)]]), (''tasks'', Seq [Seq [Str ''t'']]),
           (''task_types'', Seq [Seq [Str ''dependency'']]), (''mask'', Tensor 1)],
      (\<lambda>_. 0)(''t'' := Suc 0))"
    by (simp add: forward_def first_col_idxs_def is_active_def has_key_def
        shared_representation_def call_decoder_def decoder_call_def after_call_def
        store_probabilities_def py_get_def gold_present_def output_bundle_def
        example_decoder_def example_model_def example_metadata_def dep_model_def)
  from loss_key_iff_gold_nonempty[OF f] loss_key_iff_gold_nonempty[OF g] f g
  show ?thesis by simp
qed

subsection \<open>C4: the composite score\<close>



subsection \<open>C5: the loss after humanization\<close>

text \<open>
  C5, as the code has it. In a model with no task named \<open>loss\<close>, whenever
  \<open>make_output_human_readable\<close> returns, a loss that equals zero has been replaced by the
  one-element sequence that holds it, and a loss that is not zero is the same bare
  value as before.
\<close>

theorem humanizer_wraps_zero_loss:
  assumes "make_output_human_readable M out st = (Inr out', st')"
      and "''loss'' \<notin> set (tasks M)"
      and "map_of out ''loss'' = Some (Tensor v)"
  shows "map_of out' ''loss'' = Some (if v = 0 then Seq [Tensor v] else Tensor v)"
proof -
  from assms(1) obtain out1 where
    h: "humanize_tasks M (tasks M) out st = (Inr out1, st')"
    and w: "wrap_zero_loss out1 = Inr out'"
    by (auto simp: make_output_human_readable_def split: prod.splits sum.splits)
  have "map_of out1 ''loss'' = Some (Tensor v)"
    using humanize_tasks_loss[OF h assms(2)] assms(3) by simp
  with w show ?thesis
    by (auto simp: wrap_zero_loss_def py_get_def equals_zero_def update_conv' split: if_splits)
qed

text \<open>
  The theorem on a bundle with the loss \<open>0\<close>, on one with the loss \<open>0.0001\<close>, and on a
  bundle whose class probabilities are replaced by a list during the loop: the task \<open>b\<close>
  is then not in the list, the loop goes on, and the loss \<open>0\<close> is wrapped.
\<close>

theorem humanizer_wraps_zero_loss_witness:
  "make_output_human_readable dep_model
     [(''class_probabilities'', Dict [(''t_rels'', 2), (''t_head_indices'', 3)]),
      (''loss'', Tensor 0), (''mask'', Tensor 1)] (\<lambda>_. 0) =
     (Inr [(''class_probabilities'', Dict [(''t_rels'', 2), (''t_head_indices'', 3)]),
           (''loss'', Seq [Tensor 0]), (''mask'', Tensor 1),
           (''t_rels'', Seq [Str ''root'']), (''t_head_indices'', Seq [Tensor 0])],
      (\<lambda>_. 0)(''t'' := 0))
   \<and> make_output_human_readable dep_model
     [(''class_probabilities'', Dict [(''t_rels'', 2), (''t_head_indices'', 3)]),
      (''loss'', Tensor 0.0001), (''mask'', Tensor 1)] (\<lambda>_. 0) =
     (Inr [(''class_probabilities'', Dict [(''t_rels'', 2), (''t_head_indices'', 3)]),
           (''loss'', Tensor 0.0001), (''mask'', Tensor 1),
           (''t_rels'', Seq [Str ''root'']), (''t_head_indices'', Seq [Tensor 0])],
      (\<lambda>_. 0)(''t'' := 0))
   \<and> ''loss'' \<notin> set (tasks dep_model)
   \<and> make_output_human_readable shadow_list_model
     [(''class_probabilities'', Dict [(''class_probabilities'', 7)]),
      (''loss'', Tensor 0), (''mask'', Tensor 1)] (\<lambda>_. 0) =
     (Inr [(''class_probabilities'', Seq [Str ''label'']),
           (''loss'', Seq [Tensor 0]), (''mask'', Tensor 1)],
      (\<lambda>_. 0)(''class_probabilities'' := 0))
   \<and> ''loss'' \<notin> set (tasks shadow_list_model)"
proof -
  have c: "make_output_human_readable shadow_list_model
     [(''class_probabilities'', Dict [(''class_probabilities'', 7)]),
      (''loss'', Tensor 0), (''mask'', Tensor 1)] (\<lambda>_. 0) =
     (Inr [(''class_probabilities'', Seq [Str ''label'']),
           (''loss'', Seq [Tensor 0]), (''mask'', Tensor 1)],
      (\<lambda>_. 0)(''class_probabilities'' := 0))"
    by (simp add: make_output_human_readable_def humanize_task_def task_type_of_def
        py_contains_def py_getitem_def humanize_entry_def humanize_dependency_def dep_lookup_def
        wrap_zero_loss_def equals_zero_def has_key_def py_get_def example_decoder_def
        example_model_def shadow_list_model_def)
  have m: "''loss'' \<notin> set (tasks shadow_list_model)"
    by (simp add: example_model_def shadow_list_model_def)
  have a: "make_output_human_readable dep_model
     [(''class_probabilities'', Dict [(''t_rels'', 2), (''t_head_indices'', 3)]),
      (''loss'', Tensor 0), (''mask'', Tensor 1)] (\<lambda>_. 0) =
     (Inr [(''class_probabilities'', Dict [(''t_rels'', 2), (''t_head_indices'', 3)]),
           (''loss'', Seq [Tensor 0]), (''mask'', Tensor 1),
           (''t_rels'', Seq [Str ''root'']), (''t_head_indices'', Seq [Tensor 0])],
      (\<lambda>_. 0)(''t'' := 0))"
    by (simp add: make_output_human_readable_def humanize_task_def task_type_of_def
        py_contains_def py_getitem_def humanize_entry_def humanize_dependency_def dep_lookup_def
        wrap_zero_loss_def equals_zero_def has_key_def py_get_def example_decoder_def
        example_model_def dep_model_def)
  have b: "make_output_human_readable dep_model
     [(''class_probabilities'', Dict [(''t_rels'', 2), (''t_head_indices'', 3)]),
      (''loss'', Tensor 0.0001), (''mask'', Tensor 1)] (\<lambda>_. 0) =
     (Inr [(''class_probabilities'', Dict [(''t_rels'', 2), (''t_head_indices'', 3)]),
           (''loss'', Tensor 0.0001), (''mask'', Tensor 1),
           (''t_rels'', Seq [Str ''root'']), (''t_head_indices'', Seq [Tensor 0])],
      (\<lambda>_. 0)(''t'' := 0))"
    by (simp add: make_output_human_readable_def humanize_task_def task_type_of_def
        py_contains_def py_getitem_def humanize_entry_def humanize_dependency_def dep_lookup_def
        wrap_zero_loss_def equals_zero_def has_key_def py_get_def example_decoder_def
        example_model_def dep_model_def)
  have n: "''loss'' \<notin> set (tasks dep_model)"
    by (simp add: example_decoder_def example_model_def dep_model_def)
  from humanizer_wraps_zero_loss[OF a n] humanizer_wraps_zero_loss[OF b n]
    humanizer_wraps_zero_loss[OF c m] a b n c m
  show ?thesis by simp
qed

text \<open>
  The claim as worded fails in a model with a task named \<open>loss\<close>: the loop stores the
  task's humanized prediction under the key \<open>loss\<close>, so the aggregated loss \<open>0\<close> that
  \<open>forward\<close> returned is replaced by the prediction, not by a one-element sequence that
  holds the \<open>0\<close>.
\<close>

theorem task_named_loss_overwrites_loss:
  "forward loss_named_model () (example_metadata [(''loss'', 0)]) [(''other'', 1)] (\<lambda>_. 0) =
     (Inr [(''logits'', Dict []), (''class_probabilities'', Dict [(''loss'', 7)]),
           (''loss'', Tensor 0), (''tokens'', Seq [Seq []]), (''full_data'', Seq [Seq []]),
           (''col_idxs'', Seq [Cols [(''loss'', 0)]]), (''tasks'', Seq [Seq [Str ''loss'']]),
           (''task_types'', Seq [Seq [Str ''classification'']]), (''mask'', Tensor 1)],
      (\<lambda>_. 0)(''loss'' := Suc 0))
   \<and> fst (make_output_human_readable loss_named_model
       [(''logits'', Dict []), (''class_probabilities'', Dict [(''loss'', 7)]),
        (''loss'', Tensor 0), (''tokens'', Seq [Seq []]), (''full_data'', Seq [Seq []]),
        (''col_idxs'', Seq [Cols [(''loss'', 0)]]), (''tasks'', Seq [Seq [Str ''loss'']]),
        (''task_types'', Seq [Seq [Str ''classification'']]), (''mask'', Tensor 1)]
       ((\<lambda>_. 0)(''loss'' := Suc 0))) =
     Inr [(''logits'', Dict []), (''class_probabilities'', Dict [(''loss'', 7)]),
          (''loss'', Seq [Str ''label'']), (''tokens'', Seq [Seq []]),
          (''full_data'', Seq [Seq []]), (''col_idxs'', Seq [Cols [(''loss'', 0)]]),
          (''tasks'', Seq [Seq [Str ''loss'']]),
          (''task_types'', Seq [Seq [Str ''classification'']]), (''mask'', Tensor 1)]"
  by (simp add: forward_def first_col_idxs_def is_active_def has_key_def
      shared_representation_def call_decoder_def decoder_call_def after_call_def
      store_probabilities_def py_get_def gold_present_def output_bundle_def
      make_output_human_readable_def humanize_task_def task_type_of_def py_contains_def
      py_getitem_def humanize_entry_def humanize_dependency_def dep_lookup_def
      wrap_zero_loss_def equals_zero_def example_decoder_def example_model_def
      example_metadata_def loss_named_model_def)

subsection \<open>C6: no active task\<close>

text \<open>
  C6, as the code has it. When no task is to be handled, \<open>forward\<close> returns, without a
  decoder call; the class-probability mapping and the logits are empty; the \<open>loss\<close> key is
  absent when the gold-label bundle is empty, and holds \<open>0\<close> when it is not. When the
  reduced metric mapping is empty, \<open>get_metrics\<close> returns the composite sum \<open>0\<close> alone.
\<close>

theorem empty_active_set_outputs:
  "(select_tasks metadata (zip (tasks M) (task_types M)) [] = Inr [] \<longrightarrow>
      (\<exists>out. forward M toks metadata gold_labels st = (Inr out, st)
         \<and> map_of out ''loss'' = (if gold_labels = [] then None else Some (Tensor 0))
         \<and> map_of out ''class_probabilities'' = Some (Dict [])
         \<and> map_of out ''logits'' = Some (Dict [])))
   \<and> (collect_metrics M reset (tasks M) [] st [] = (Inr [], st1, logged) \<longrightarrow>
        get_metrics M reset st = (Inr [(''.run/.sum'', Num 0)], st1, logged))"
  by (auto simp: forward_nothing_to_handle map_of_output_bundle_loss map_of_output_bundle_cp
      map_of_output_bundle_logits get_metrics_def)

theorem empty_active_set_outputs_witness:
  "select_tasks (example_metadata []) (zip (tasks dep_model) (task_types dep_model)) [] = Inr []
   \<and> forward dep_model () (example_metadata []) [] (\<lambda>_. 0) =
       (Inr [(''logits'', Dict []), (''class_probabilities'', Dict []),
             (''tokens'', Seq [Seq []]), (''full_data'', Seq [Seq []]),
             (''col_idxs'', Seq [Cols []]), (''tasks'', Seq [Seq [Str ''t'']]),
             (''task_types'', Seq [Seq [Str ''dependency'']]), (''mask'', Tensor 1)],
        \<lambda>_. 0)
   \<and> collect_metrics dep_model False (tasks dep_model) [] (\<lambda>_. 0) [] =
       (Inr [], (\<lambda>_. 0)(''t'' := 0), [])
   \<and> get_metrics dep_model False (\<lambda>_. 0) =
       (Inr [(''.run/.sum'', Num 0)], (\<lambda>_. 0)(''t'' := 0), [])"
proof -
  have s: "select_tasks (example_metadata []) (zip (tasks dep_model) (task_types dep_model)) []
             = Inr []"
    by (simp add: forward_def first_col_idxs_def is_active_def has_key_def
        shared_representation_def call_decoder_def decoder_call_def after_call_def
        store_probabilities_def py_get_def gold_present_def output_bundle_def
        example_decoder_def example_model_def example_metadata_def dep_model_def)
  have c: "collect_metrics dep_model False (tasks dep_model) [] (\<lambda>_. 0) [] =
       (Inr [], (\<lambda>_. 0)(''t'' := 0), [])"
    by (simp add: example_decoder_def example_model_def example_metadata_def dep_model_def)
  have f: "forward dep_model () (example_metadata []) [] (\<lambda>_. 0) =
       (Inr [(''logits'', Dict []), (''class_probabilities'', Dict []),
             (''tokens'', Seq [Seq []]), (''full_data'', Seq [Seq []]),
             (''col_idxs'', Seq [Cols []]), (''tasks'', Seq [Seq [Str ''t'']]),
             (''task_types'', Seq [Seq [Str ''dependency'']]), (''mask'', Tensor 1)],
        \<lambda>_. 0)"
    by (simp add: forward_def first_col_idxs_def is_active_def has_key_def
        shared_representation_def call_decoder_def decoder_call_def after_call_def
        store_probabilities_def py_get_def gold_present_def output_bundle_def
        example_decoder_def example_model_def example_metadata_def dep_model_def)
  from empty_active_set_outputs[of "example_metadata []" dep_model "()" "[]" "\<lambda>_. 0" False
      "(\<lambda>_. 0)(''t'' := 0)" "[]"] s c f
  show ?thesis by simp
qed

text \<open>
  The claim as worded fails when no task is active and the gold-label bundle is not
  empty: \<open>forward\<close> emits the \<open>loss\<close> key, with the value \<open>0\<close>.
\<close>

theorem empty_active_set_emits_loss:
  "select_tasks (example_metadata []) (zip (tasks dep_model) (task_types dep_model)) [] = Inr []
   \<and> forward dep_model () (example_metadata []) [(''t'', 5)] (\<lambda>_. 0) =
       (Inr [(''logits'', Dict []), (''class_probabilities'', Dict []), (''loss'', Tensor 0),
             (''tokens'', Seq [Seq []]), (''full_data'', Seq [Seq []]),
             (''col_idxs'', Seq [Cols []]), (''tasks'', Seq [Seq [Str ''t'']]),
             (''task_types'', Seq [Seq [Str ''dependency'']]), (''mask'', Tensor 1)],
        \<lambda>_. 0)
   \<and> has_key [(''logits'', Dict []), (''class_probabilities'', Dict []), (''loss'', Tensor (0 :: real)),
             (''tokens'', Seq [Seq []]), (''full_data'', Seq [Seq []]),
             (''col_idxs'', Seq [Cols []]), (''tasks'', Seq [Seq [Str ''t'']]),
             (''task_types'', Seq [Seq [Str ''dependency'']]), (''mask'', Tensor 1)] ''loss''"
  by (simp add: forward_def first_col_idxs_def is_active_def has_key_def
      shared_representation_def call_decoder_def decoder_call_def after_call_def
      store_probabilities_def py_get_def gold_present_def output_bundle_def example_decoder_def
      example_model_def example_metadata_def dep_model_def)

subsection \<open>C7: unrecognized metric suffixes\<close>

text \<open>
  C7. A reported metric whose suffix is not in the recognized vocabulary only adds its name
  to the log: the loop goes on with the same mapping, so the entry raises nothing and is
  not stored. The result of \<open>get_metrics\<close> (the mapping with its composite sum, or the
  error) and the decoders' states are the same as with decoders that do not report such
  entries, and every key of a returned mapping is the composite key or has a recognized
  suffix.
\<close>

theorem unrecognized_metric_dropped:
  "(\<not> spec_recognized_suffix (last (split_slash name)) \<longrightarrow>
      reduce_items ((name, task_metric) # rest) metrics logged
        = reduce_items rest metrics (logged @ [name]))
   \<and> fst (get_metrics (drop_unrecognized_metrics M) reset st) = fst (get_metrics M reset st)
   \<and> fst (snd (get_metrics (drop_unrecognized_metrics M) reset st))
       = fst (snd (get_metrics M reset st))
   \<and> (get_metrics M reset st = (Inr out, st', logged') \<longrightarrow>
        list_all (\<lambda>(key, v). key = ''.run/.sum''
                    \<or> spec_recognized_suffix (last (split_slash key))) out)"
proof -
  have keys: "get_metrics M reset st = (Inr out, st', logged') \<longrightarrow>
        list_all (\<lambda>(key, v). key = ''.run/.sum''
                    \<or> spec_recognized_suffix (last (split_slash key))) out"
  proof
    assume a: "get_metrics M reset st = (Inr out, st', logged')"
    from get_metrics_Inr[OF a] obtain ms where
      c: "collect_metrics M reset (tasks M) [] st [] = (Inr ms, st', logged')"
      and o: "out = ms @ [(''.run/.sum'',
                      Num (foldl (+) 0 (tracked_values (metrics_to_track M) ms)))]"
      by blast
    have "list_all (\<lambda>(name, v). spec_recognized_suffix (last (split_slash name))) ms"
      using collect_metrics_keys[OF c] by simp
    then show "list_all (\<lambda>(key, v). key = ''.run/.sum''
                    \<or> spec_recognized_suffix (last (split_slash key))) out"
      unfolding o list_all_iff by auto
  qed
  from reduce_items_unrecognized[of name task_metric rest metrics logged]
    get_metrics_filter[of M reset st] keys
  show ?thesis by blast
qed

text \<open>
  The theorem on a decoder that reports \<open>task_a/f1\<close> before \<open>task_a/acc\<close>: the first is
  logged and dropped, and the sum is that of the second alone.
\<close>

theorem unrecognized_metric_dropped_witness:
  "\<not> spec_recognized_suffix (last (split_slash ''task_a/f1''))
   \<and> reduce_items [(''task_a/f1'', Num 0.5), (''task_a/acc'', Num (0.8 :: real))] [] []
       = (Inr [(''task_a/acc'', Num 0.8)], [''task_a/f1''])
   \<and> get_metrics noisy_metrics_model False (\<lambda>_. 0) =
       (Inr [(''task_a/acc'', Num 0.8), (''.run/.sum'', Num 0.8)],
        (\<lambda>_. 0)(''task_a'' := 0), [''task_a/f1''])
   \<and> fst (get_metrics (drop_unrecognized_metrics noisy_metrics_model) False (\<lambda>_. 0)) =
       Inr [(''task_a/acc'', Num 0.8), (''.run/.sum'', Num 0.8)]"
proof -
  have n: "\<not> spec_recognized_suffix (last (split_slash ''task_a/f1''))"
    by (simp add: spec_recognized_suffix_def lower_def lower_char_def)
  have g: "get_metrics noisy_metrics_model False (\<lambda>_. 0) =
       (Inr [(''task_a/acc'', Num 0.8), (''.run/.sum'', Num 0.8)],
        (\<lambda>_. 0)(''task_a'' := 0), [''task_a/f1''])"
    by (simp add: get_metrics_def extract_metric_def sub_field_def lower_def lower_char_def
        metrics_to_track_def counts_in_sum_def startswith_def endswith_def example_decoder_def
        example_model_def noisy_metrics_model_def)
  have r: "reduce_items [(''task_a/acc'', Num (0.8 :: real))] [] [''task_a/f1'']
       = (Inr [(''task_a/acc'', Num 0.8)], [''task_a/f1''])"
    by (simp add: extract_metric_def)
  from unrecognized_metric_dropped[of "''task_a/f1''" "Num (0.5 :: real)" "[(''task_a/acc'', Num 0.8)]"
      "[]" "[]" noisy_metrics_model False "\<lambda>_. 0" _ "(\<lambda>_. 0)(''task_a'' := 0)" "[''task_a/f1'']"]
    n g r
  show ?thesis by simp
qed

subsection \<open>C8: reading the metrics twice\<close>

text \<open>
  C8. When no decoder changes its state on \<open>get_metrics\<close> with \<open>reset = False\<close>, a call of
  \<open>get_metrics\<close> with \<open>reset = False\<close> leaves the decoders' states as they were, and a
  second call returns the same as the first: the same mapping with the same composite
  sum, or the same error, and the same log.
\<close>

theorem get_metrics_idempotent:
  assumes "\<forall>task d s. decoders M task = Some d \<longrightarrow> snd (dec_get_metrics d False s) = s"
      and "get_metrics M False st = (r, st1, logged)"
  shows "st1 = st \<and> get_metrics M False st1 = (r, st1, logged)"
proof -
  have "fst (snd (collect_metrics M False (tasks M) [] st [])) = st"
    using assms(1) by (intro collect_metrics_readonly) blast
  then have "st1 = st" using assms(2) get_metrics_state[of M False st] by simp
  then show ?thesis using assms(2) by simp
qed

text \<open>
  The theorem on the example of the specification, whose decoders change their state only
  on a reset, with every decoder in the state \<open>3\<close>.
\<close>

theorem get_metrics_idempotent_witness:
  "get_metrics metrics_model False (\<lambda>_. 3) =
       (Inr [(''task_a/acc'', Num 0.8), (''task_b/las'', Num 0.6), (''.run/.sum'', Num 1.4)],
        \<lambda>_. 3, [])
   \<and> get_metrics metrics_model False
        (fst (snd (get_metrics metrics_model False (\<lambda>_. 3)))) =
       (Inr [(''task_a/acc'', Num 0.8), (''task_b/las'', Num 0.6), (''.run/.sum'', Num 1.4)],
        \<lambda>_. 3, [])"
proof -
  have h: "\<forall>task d s. decoders metrics_model task = Some d \<longrightarrow> snd (dec_get_metrics d False s) = s"
    by (auto simp: example_decoder_def example_model_def metrics_model_def split: if_splits)
  have g: "get_metrics metrics_model False (\<lambda>_. 3) =
       (Inr [(''task_a/acc'', Num 0.8), (''task_b/las'', Num 0.6), (''.run/.sum'', Num 1.4)],
        \<lambda>_. 3, [])"
    by (simp add: get_metrics_def extract_metric_def sub_field_def lower_def lower_char_def
        metrics_to_track_def counts_in_sum_def startswith_def endswith_def example_decoder_def
        example_model_def metrics_model_def fun_eq_iff)
  from get_metrics_idempotent[OF h g] g show ?thesis by simp
qed

subsection \<open>C9: humanizing a bundle without a loss\<close>

text \<open>
  C9, as the code has it. In a model with no task named \<open>loss\<close>,
  \<open>make_output_human_readable\<close> never returns on a bundle that has no \<open>loss\<close> key: it
  raises the error of the loop over the tasks when that loop raises, and
  \<open>KeyError('loss')\<close> when the loop completes.
\<close>

theorem humanizer_raises_without_loss:
  assumes "map_of out ''loss'' = None" and "''loss'' \<notin> set (tasks M)"
  shows "isl (fst (make_output_human_readable M out st))
       \<and> fst (make_output_human_readable M out st) =
           (case fst (humanize_tasks M (tasks M) out st) of
              Inl e \<Rightarrow> Inl e
            | Inr out1 \<Rightarrow> Inl (KeyError ''loss''))"
proof (cases "humanize_tasks M (tasks M) out st")
  case (Pair r st1)
  show ?thesis
  proof (cases r)
    case (Inl e)
    with Pair show ?thesis by (simp add: make_output_human_readable_def)
  next
    case (Inr out1)
    with Pair humanize_tasks_loss[of M "tasks M" out st out1 st1] assms
    have "map_of out1 ''loss'' = None" by simp
    with Pair Inr show ?thesis
      by (simp add: make_output_human_readable_def wrap_zero_loss_def py_get_def)
  qed
qed

text \<open>
  The theorem on the bundle that \<open>forward\<close> returns for an empty gold-label bundle, and on
  a bundle whose class probabilities are replaced by a list during the loop: the loop
  completes and the lookup of the loss raises.
\<close>

theorem humanizer_raises_without_loss_witness:
  "map_of [(''logits'', Dict [(''t'', 1 :: real)]),
           (''class_probabilities'', Dict [(''t_rels'', 2), (''t_head_indices'', 3)]),
           (''tokens'', Seq [Seq []]), (''full_data'', Seq [Seq []]),
           (''col_idxs'', Seq [Cols [(''t'', 0)]]), (''tasks'', Seq [Seq [Str ''t'']]),
           (''task_types'', Seq [Seq [Str ''dependency'']]), (''mask'', Tensor 1)] ''loss'' = None
   \<and> ''loss'' \<notin> set (tasks dep_model)
   \<and> fst (make_output_human_readable dep_model
       [(''logits'', Dict [(''t'', 1)]),
        (''class_probabilities'', Dict [(''t_rels'', 2), (''t_head_indices'', 3)]),
        (''tokens'', Seq [Seq []]), (''full_data'', Seq [Seq []]),
        (''col_idxs'', Seq [Cols [(''t'', 0)]]), (''tasks'', Seq [Seq [Str ''t'']]),
        (''task_types'', Seq [Seq [Str ''dependency'']]), (''mask'', Tensor 1)]
       ((\<lambda>_. 0)(''t'' := Suc 0))) = Inl (KeyError ''loss'')
   \<and> ''loss'' \<notin> set (tasks shadow_list_model)
   \<and> fst (humanize_tasks shadow_list_model (tasks shadow_list_model)
       [(''class_probabilities'', Dict [(''class_probabilities'', 7 :: real)]), (''mask'', Tensor 1)]
       (\<lambda>_. 0)) =
     Inr [(''class_probabilities'', Seq [Str ''label'']), (''mask'', Tensor 1)]
   \<and> fst (make_output_human_readable shadow_list_model
       [(''class_probabilities'', Dict [(''class_probabilities'', 7)]), (''mask'', Tensor 1)]
       (\<lambda>_. 0)) = Inl (KeyError ''loss'')"
proof -
  have b: "map_of [(''class_probabilities'', Dict [(''class_probabilities'', 7 :: real)]),
                   (''mask'', Tensor 1)] ''loss'' = None"
    by simp
  have m: "''loss'' \<notin> set (tasks shadow_list_model)"
    by (simp add: example_model_def shadow_list_model_def)
  have l: "fst (humanize_tasks shadow_list_model (tasks shadow_list_model)
       [(''class_probabilities'', Dict [(''class_probabilities'', 7 :: real)]), (''mask'', Tensor 1)]
       (\<lambda>_. 0)) =
     Inr [(''class_probabilities'', Seq [Str ''label'']), (''mask'', Tensor 1)]"
    by (simp add: make_output_human_readable_def humanize_task_def task_type_of_def
        py_contains_def py_getitem_def humanize_entry_def humanize_dependency_def dep_lookup_def
        wrap_zero_loss_def equals_zero_def has_key_def py_get_def example_decoder_def
        example_model_def shadow_list_model_def)
  have a: "map_of [(''logits'', Dict [(''t'', 1 :: real)]),
           (''class_probabilities'', Dict [(''t_rels'', 2), (''t_head_indices'', 3)]),
           (''tokens'', Seq [Seq []]), (''full_data'', Seq [Seq []]),
           (''col_idxs'', Seq [Cols [(''t'', 0)]]), (''tasks'', Seq [Seq [Str ''t'']]),
           (''task_types'', Seq [Seq [Str ''dependency'']]), (''mask'', Tensor 1)] ''loss'' = None"
    by simp
  have n: "''loss'' \<notin> set (tasks dep_model)"
    by (simp add: example_decoder_def example_model_def dep_model_def)
  have k: "fst (make_output_human_readable dep_model
       [(''logits'', Dict [(''t'', 1)]),
        (''class_probabilities'', Dict [(''t_rels'', 2), (''t_head_indices'', 3)]),
        (''tokens'', Seq [Seq []]), (''full_data'', Seq [Seq []]),
        (''col_idxs'', Seq [Cols [(''t'', 0)]]), (''tasks'', Seq [Seq [Str ''t'']]),
        (''task_types'', Seq [Seq [Str ''dependency'']]), (''mask'', Tensor 1)]
       ((\<lambda>_. 0)(''t'' := Suc 0))) = Inl (KeyError ''loss'')"
    using humanizer_raises_without_loss[OF a n, of "(\<lambda>_. 0)(''t'' := Suc 0)"]
    by (simp add: make_output_human_readable_def humanize_task_def task_type_of_def
        py_contains_def py_getitem_def humanize_entry_def humanize_dependency_def dep_lookup_def
        wrap_zero_loss_def equals_zero_def has_key_def py_get_def example_decoder_def
        example_model_def dep_model_def)
  have k2: "fst (make_output_human_readable shadow_list_model
       [(''class_probabilities'', Dict [(''class_probabilities'', 7)]), (''mask'', Tensor 1)]
       (\<lambda>_. 0)) = Inl (KeyError ''loss'')"
    using humanizer_raises_without_loss[OF b m, of "\<lambda>_. 0"] l by simp
  from a n k m l k2 show ?thesis by simp
qed

text \<open>
  The claim as worded fails in a model with a task named \<open>loss\<close>: \<open>forward\<close>, called with
  an empty gold-label bundle, returns a bundle without a \<open>loss\<close> key, and
  \<open>make_output_human_readable\<close> returns on it, because the loop has stored the task's
  prediction under \<open>loss\<close>.
\<close>

theorem task_named_loss_hides_missing_loss:
  "forward loss_named_model () (example_metadata [(''loss'', 0)]) [] (\<lambda>_. 0) =
     (Inr [(''logits'', Dict []), (''class_probabilities'', Dict [(''loss'', 7)]),
           (''tokens'', Seq [Seq []]), (''full_data'', Seq [Seq []]),
           (''col_idxs'', Seq [Cols [(''loss'', 0)]]), (''tasks'', Seq [Seq [Str ''loss'']]),
           (''task_types'', Seq [Seq [Str ''classification'']]), (''mask'', Tensor 1)],
      (\<lambda>_. 0)(''loss'' := Suc 0))
   \<and> \<not> has_key [(''logits'', Dict []), (''class_probabilities'', Dict [(''loss'', 7 :: real)]),
           (''tokens'', Seq [Seq []]), (''full_data'', Seq [Seq []]),
           (''col_idxs'', Seq [Cols [(''loss'', 0)]]), (''tasks'', Seq [Seq [Str ''loss'']]),
           (''task_types'', Seq [Seq [Str ''classification'']]), (''mask'', Tensor 1)] ''loss''
   \<and> fst (make_output_human_readable loss_named_model
       [(''logits'', Dict []), (''class_probabilities'', Dict [(''loss'', 7)]),
        (''tokens'', Seq [Seq []]), (''full_data'', Seq [Seq []]),
        (''col_idxs'', Seq [Cols [(''loss'', 0)]]), (''tasks'', Seq [Seq [Str ''loss'']]),
        (''task_types'', Seq [Seq [Str ''classification'']]), (''mask'', Tensor 1)]
       ((\<lambda>_. 0)(''loss'' := Suc 0))) =
     Inr [(''logits'', Dict []), (''class_probabilities'', Dict [(''loss'', 7)]),
          (''tokens'', Seq [Seq []]), (''full_data'', Seq [Seq []]),
          (''col_idxs'', Seq [Cols [(''loss'', 0)]]), (''tasks'', Seq [Seq [Str ''loss'']]),
          (''task_types'', Seq [Seq [Str ''classification'']]), (''mask'', Tensor 1),
          (''loss'', Seq [Str ''label''])]"
  by (simp add: forward_def first_col_idxs_def is_active_def has_key_def
      shared_representation_def call_decoder_def decoder_call_def after_call_def
      store_probabilities_def py_get_def gold_present_def output_bundle_def
      make_output_human_readable_def humanize_task_def task_type_of_def py_contains_def
      py_getitem_def humanize_entry_def humanize_dependency_def dep_lookup_def
      wrap_zero_loss_def equals_zero_def example_decoder_def example_model_def
      example_metadata_def loss_named_model_def)

subsection \<open>C10: the two entries of a dependency task\<close>

text \<open>
  C10, as the code has it. The class-probability mapping \<open>cp\<close> that \<open>forward\<close> returns
  has, for every name \<open>t\<close> such that no task of the registry is named \<open>t_rels\<close> or
  \<open>t_head_indices\<close>, the key \<open>t_rels\<close> exactly when it has the key \<open>t_head_indices\<close>, and
  then the two lookups of the humanizer's dependency branch succeed on \<open>cp\<close>. When this
  holds of every task of the registry and no task is named \<open>class_probabilities\<close>,
  \<open>make_output_human_readable\<close>, called on the bundle in any state of the decoders,
  never raises \<open>KeyError('t_head_indices')\<close> for a task \<open>t\<close>, unless a decoder's own
  \<open>make_output_human_readable\<close> raises it: the lookup of line 146 does not fail.
\<close>

theorem dependency_entries_together:
  assumes "forward M toks metadata gold_labels st = (Inr out, st')"
  shows "\<exists>cp. map_of out ''class_probabilities'' = Some (Dict cp)
     \<and> (\<forall>t. t @ ''_rels'' \<notin> set (tasks M) \<and> t @ ''_head_indices'' \<notin> set (tasks M) \<longrightarrow>
            has_key cp (t @ ''_rels'') = has_key cp (t @ ''_head_indices'')
            \<and> (has_key cp (t @ ''_rels'') \<longrightarrow>
                 (\<exists>tags heads. dep_lookup (Dict cp) t = Inr (Tensor tags, Tensor heads))))
     \<and> ((\<forall>u \<in> set (tasks M). u @ ''_rels'' \<notin> set (tasks M) \<and> u @ ''_head_indices'' \<notin> set (tasks M))
          \<and> ''class_probabilities'' \<notin> set (tasks M) \<longrightarrow>
        (\<forall>t \<in> set (tasks M).
           (\<forall>task d p s. decoders M task = Some d \<longrightarrow>
              fst (dec_human_readable d p s) \<noteq> Inl (KeyError (t @ ''_head_indices'')))
           \<and> (\<forall>task d a b m s. decoders M task = Some d \<longrightarrow>
              fst (dec_human_readable_dep d a b m s) \<noteq> Inl (KeyError (t @ ''_head_indices'')))
           \<longrightarrow> (\<forall>st0. fst (make_output_human_readable M out st0)
                        \<noteq> Inl (KeyError (t @ ''_head_indices'')))))"
proof -
  from forward_class_probabilities_pair[OF assms] obtain cp where
    cp: "map_of out ''class_probabilities'' = Some (Dict cp)"
    and pair: "\<And>t. t @ ''_rels'' \<notin> set (tasks M) \<Longrightarrow> t @ ''_head_indices'' \<notin> set (tasks M) \<Longrightarrow>
                 has_key cp (t @ ''_rels'') = has_key cp (t @ ''_head_indices'')"
    by blast
  have lookups: "\<exists>tags heads. dep_lookup (Dict cp) t = Inr (Tensor tags, Tensor heads)"
    if n1: "t @ ''_rels'' \<notin> set (tasks M)" and n2: "t @ ''_head_indices'' \<notin> set (tasks M)"
      and h: "has_key cp (t @ ''_rels'')" for t
  proof -
    from pair[OF n1 n2] h have h2: "has_key cp (t @ ''_head_indices'')" by simp
    from h obtain a where a: "map_of cp (t @ ''_rels'') = Some a"
      unfolding has_key_def by blast
    from h2 obtain b where b: "map_of cp (t @ ''_head_indices'') = Some b"
      unfolding has_key_def by blast
    have "dep_lookup (Dict cp) t = Inr (Tensor a, Tensor b)"
      by (simp add: dep_lookup_def py_getitem_def a b)
    then show ?thesis by blast
  qed
  have humanizer: "fst (make_output_human_readable M out st0) \<noteq> Inl (KeyError (t @ ''_head_indices''))"
    if names: "\<forall>u \<in> set (tasks M). u @ ''_rels'' \<notin> set (tasks M) \<and> u @ ''_head_indices'' \<notin> set (tasks M)"
      and cpn: "''class_probabilities'' \<notin> set (tasks M)"
      and t: "t \<in> set (tasks M)"
      and d1: "\<forall>task d p s. decoders M task = Some d \<longrightarrow>
              fst (dec_human_readable d p s) \<noteq> Inl (KeyError (t @ ''_head_indices''))"
      and d2: "\<forall>task d a b m s. decoders M task = Some d \<longrightarrow>
              fst (dec_human_readable_dep d a b m s) \<noteq> Inl (KeyError (t @ ''_head_indices''))"
    for t st0
  proof
    assume e: "fst (make_output_human_readable M out st0) = Inl (KeyError (t @ ''_head_indices''))"
    have "t @ ''_head_indices'' \<in> set (tasks M) \<or> t @ ''_head_indices'' = ''mask''
          \<or> t @ ''_head_indices'' = ''loss''"
    proof (rule make_output_human_readable_key_error[where M = M and out = out and st = st0
          and cp = cp])
      show "\<And>task d p s. decoders M task = Some d \<Longrightarrow>
              fst (dec_human_readable d p s) \<noteq> Inl (KeyError (t @ ''_head_indices''))"
        using d1 by blast
      show "\<And>task d a b m s. decoders M task = Some d \<Longrightarrow>
              fst (dec_human_readable_dep d a b m s) \<noteq> Inl (KeyError (t @ ''_head_indices''))"
        using d2 by blast
      show "map_of out ''class_probabilities'' = Some (Dict cp)" by (rule cp)
      show "has_key cp (u @ ''_head_indices'')"
        if u: "u \<in> set (tasks M)" and h: "has_key cp (u @ ''_rels'')" for u
      proof -
        from names u have "u @ ''_rels'' \<notin> set (tasks M) \<and> u @ ''_head_indices'' \<notin> set (tasks M)"
          by (rule bspec)
        then have "has_key cp (u @ ''_rels'') = has_key cp (u @ ''_head_indices'')"
          using pair by blast
        with h show ?thesis by simp
      qed
      show "''class_probabilities'' \<notin> set (tasks M)" by (rule cpn)
      show "fst (make_output_human_readable M out st0) = Inl (KeyError (t @ ''_head_indices''))"
        by (rule e)
    qed
    moreover from names t have "t @ ''_rels'' \<notin> set (tasks M) \<and> t @ ''_head_indices'' \<notin> set (tasks M)"
      by (rule bspec)
    moreover have "t @ ''_head_indices'' \<noteq> ''mask''"
      using mask_neq_heads[of t] by (rule not_sym)
    moreover have "t @ ''_head_indices'' \<noteq> ''loss''"
      using loss_neq_heads[of t] by (rule not_sym)
    ultimately show False by blast
  qed
  have A: "\<forall>t. t @ ''_rels'' \<notin> set (tasks M) \<and> t @ ''_head_indices'' \<notin> set (tasks M) \<longrightarrow>
            has_key cp (t @ ''_rels'') = has_key cp (t @ ''_head_indices'')
            \<and> (has_key cp (t @ ''_rels'') \<longrightarrow>
                 (\<exists>tags heads. dep_lookup (Dict cp) t = Inr (Tensor tags, Tensor heads)))"
  proof (intro allI impI conjI)
    fix t
    assume n: "t @ ''_rels'' \<notin> set (tasks M) \<and> t @ ''_head_indices'' \<notin> set (tasks M)"
    show "has_key cp (t @ ''_rels'') = has_key cp (t @ ''_head_indices'')"
      by (rule pair[OF conjunct1[OF n] conjunct2[OF n]])
  next
    fix t
    assume n: "t @ ''_rels'' \<notin> set (tasks M) \<and> t @ ''_head_indices'' \<notin> set (tasks M)"
      and h: "has_key cp (t @ ''_rels'')"
    show "\<exists>tags heads. dep_lookup (Dict cp) t = Inr (Tensor tags, Tensor heads)"
      by (rule lookups[OF conjunct1[OF n] conjunct2[OF n] h])
  qed
  have B: "(\<forall>u \<in> set (tasks M). u @ ''_rels'' \<notin> set (tasks M) \<and> u @ ''_head_indices'' \<notin> set (tasks M))
          \<and> ''class_probabilities'' \<notin> set (tasks M) \<longrightarrow>
        (\<forall>t \<in> set (tasks M).
           (\<forall>task d p s. decoders M task = Some d \<longrightarrow>
              fst (dec_human_readable d p s) \<noteq> Inl (KeyError (t @ ''_head_indices'')))
           \<and> (\<forall>task d a b m s. decoders M task = Some d \<longrightarrow>
              fst (dec_human_readable_dep d a b m s) \<noteq> Inl (KeyError (t @ ''_head_indices'')))
           \<longrightarrow> (\<forall>st0. fst (make_output_human_readable M out st0)
                        \<noteq> Inl (KeyError (t @ ''_head_indices''))))"
  proof (intro impI ballI allI)
    fix t st0
    assume nc: "(\<forall>u \<in> set (tasks M). u @ ''_rels'' \<notin> set (tasks M)
                   \<and> u @ ''_head_indices'' \<notin> set (tasks M))
                \<and> ''class_probabilities'' \<notin> set (tasks M)"
      and t: "t \<in> set (tasks M)"
      and d: "(\<forall>task d p s. decoders M task = Some d \<longrightarrow>
                 fst (dec_human_readable d p s) \<noteq> Inl (KeyError (t @ ''_head_indices'')))
              \<and> (\<forall>task d a b m s. decoders M task = Some d \<longrightarrow>
                 fst (dec_human_readable_dep d a b m s) \<noteq> Inl (KeyError (t @ ''_head_indices'')))"
    show "fst (make_output_human_readable M out st0) \<noteq> Inl (KeyError (t @ ''_head_indices''))"
      by (rule humanizer[OF conjunct1[OF nc] conjunct2[OF nc] t conjunct1[OF d] conjunct2[OF d]])
  qed
  show ?thesis
    by (rule exI[of _ cp]) (rule conjI[OF cp conjI[OF A B]])
qed

text \<open>
  The theorem at the one-task model: the mapping has both keys of \<open>t\<close>, the lookups
  succeed, and the humanizer returns on the bundle of \<open>forward\<close>.
\<close>

theorem dependency_entries_together_witness:
  "forward dep_model () (example_metadata [(''t'', 0)]) [(''u'', 5)] (\<lambda>_. 0) =
     (Inr [(''logits'', Dict [(''t'', 1)]),
           (''class_probabilities'', Dict [(''t_rels'', 2), (''t_head_indices'', 3)]),
           (''loss'', Tensor 0), (''tokens'', Seq [Seq []]), (''full_data'', Seq [Seq []]),
           (''col_idxs'', Seq [Cols [(''t'', 0)]]), (''tasks'', Seq [Seq [Str ''t'']]),
           (''task_types'', Seq [Seq [Str ''dependency'']]), (''mask'', Tensor 1)],
      (\<lambda>_. 0)(''t'' := Suc 0))
   \<and> ''t'' @ ''_rels'' \<notin> set (tasks dep_model)
   \<and> ''t'' @ ''_head_indices'' \<notin> set (tasks dep_model)
   \<and> ''class_probabilities'' \<notin> set (tasks dep_model)
   \<and> has_key [(''t_rels'', 2 :: real), (''t_head_indices'', 3)] (''t'' @ ''_rels'')
   \<and> has_key [(''t_rels'', 2 :: real), (''t_head_indices'', 3)] (''t'' @ ''_head_indices'')
   \<and> dep_lookup (Dict [(''t_rels'', 2 :: real), (''t_head_indices'', 3)]) ''t''
       = Inr (Tensor 2, Tensor 3)
   \<and> fst (make_output_human_readable dep_model
       [(''logits'', Dict [(''t'', 1)]),
        (''class_probabilities'', Dict [(''t_rels'', 2), (''t_head_indices'', 3)]),
        (''loss'', Tensor 0), (''tokens'', Seq [Seq []]), (''full_data'', Seq [Seq []]),
        (''col_idxs'', Seq [Cols [(''t'', 0)]]), (''tasks'', Seq [Seq [Str ''t'']]),
        (''task_types'', Seq [Seq [Str ''dependency'']]), (''mask'', Tensor 1)]
       ((\<lambda>_. 0)(''t'' := Suc 0))) \<noteq> Inl (KeyError (''t'' @ ''_head_indices''))"
proof -
  let ?B = "[(''logits'', Dict [(''t'', 1 :: real)]),
           (''class_probabilities'', Dict [(''t_rels'', 2), (''t_head_indices'', 3)]),
           (''loss'', Tensor 0), (''tokens'', Seq [Seq []]), (''full_data'', Seq [Seq []]),
           (''col_idxs'', Seq [Cols [(''t'', 0)]]), (''tasks'', Seq [Seq [Str ''t'']]),
           (''task_types'', Seq [Seq [Str ''dependency'']]), (''mask'', Tensor 1)]"
  have f: "forward dep_model () (example_metadata [(''t'', 0)]) [(''u'', 5)] (\<lambda>_. 0) =
     (Inr ?B, (\<lambda>_. 0)(''t'' := Suc 0))"
    by (simp add: forward_def first_col_idxs_def is_active_def has_key_def
        shared_representation_def call_decoder_def decoder_call_def after_call_def
        store_probabilities_def py_get_def gold_present_def output_bundle_def
        example_decoder_def example_model_def example_metadata_def dep_model_def)
  have t: "tasks dep_model = [''t'']"
    by (simp add: example_model_def dep_model_def)
  have d1: "\<forall>task d p s. decoders dep_model task = Some d \<longrightarrow>
              fst (dec_human_readable d p s) \<noteq> Inl (KeyError (''t'' @ ''_head_indices''))"
    by (auto simp: example_decoder_def example_model_def dep_model_def split: if_splits)
  have d2: "\<forall>task d a b m s. decoders dep_model task = Some d \<longrightarrow>
              fst (dec_human_readable_dep d a b m s) \<noteq> Inl (KeyError (''t'' @ ''_head_indices''))"
    by (auto simp: example_decoder_def example_model_def dep_model_def split: if_splits)
  have n: "''t'' @ ''_rels'' \<notin> set (tasks dep_model)"
      "''t'' @ ''_head_indices'' \<notin> set (tasks dep_model)"
      "''class_probabilities'' \<notin> set (tasks dep_model)"
    by (simp_all add: t)
  have names: "\<forall>u \<in> set (tasks dep_model). u @ ''_rels'' \<notin> set (tasks dep_model)
                 \<and> u @ ''_head_indices'' \<notin> set (tasks dep_model)"
    by (simp add: t)
  have tin: "''t'' \<in> set (tasks dep_model)"
    by (simp add: t)
  from dependency_entries_together[OF f] obtain cp where
    c: "map_of ?B ''class_probabilities'' = Some (Dict cp)"
    and pair: "\<forall>t. t @ ''_rels'' \<notin> set (tasks dep_model) \<and> t @ ''_head_indices'' \<notin> set (tasks dep_model) \<longrightarrow>
            has_key cp (t @ ''_rels'') = has_key cp (t @ ''_head_indices'')
            \<and> (has_key cp (t @ ''_rels'') \<longrightarrow>
                 (\<exists>tags heads. dep_lookup (Dict cp) t = Inr (Tensor tags, Tensor heads)))"
    and hum: "(\<forall>u \<in> set (tasks dep_model). u @ ''_rels'' \<notin> set (tasks dep_model)
                 \<and> u @ ''_head_indices'' \<notin> set (tasks dep_model))
          \<and> ''class_probabilities'' \<notin> set (tasks dep_model) \<longrightarrow>
        (\<forall>t \<in> set (tasks dep_model).
           (\<forall>task d p s. decoders dep_model task = Some d \<longrightarrow>
              fst (dec_human_readable d p s) \<noteq> Inl (KeyError (t @ ''_head_indices'')))
           \<and> (\<forall>task d a b m s. decoders dep_model task = Some d \<longrightarrow>
              fst (dec_human_readable_dep d a b m s) \<noteq> Inl (KeyError (t @ ''_head_indices'')))
           \<longrightarrow> (\<forall>st0. fst (make_output_human_readable dep_model ?B st0)
                        \<noteq> Inl (KeyError (t @ ''_head_indices''))))"
    by (elim exE conjE) (rule that)
  from c have e: "cp = [(''t_rels'', 2), (''t_head_indices'', 3)]" by simp
  note p = pair[rule_format, OF conjI[OF n(1) n(2)], unfolded e]
  note h = hum[rule_format, OF conjI[OF names n(3)] tin conjI[OF d1 d2],
      of "(\<lambda>_. 0)(''t'' := Suc 0)"]
  have k: "has_key [(''t_rels'', 2 :: real), (''t_head_indices'', 3)] (''t'' @ ''_rels'')"
    by (simp add: has_key_def)
  from p k have k2: "has_key [(''t_rels'', 2 :: real), (''t_head_indices'', 3)] (''t'' @ ''_head_indices'')"
    by blast
  have l: "dep_lookup (Dict [(''t_rels'', 2 :: real), (''t_head_indices'', 3)]) ''t''
       = Inr (Tensor 2, Tensor 3)"
    by (simp add: dep_lookup_def py_getitem_def)
  from conjI[OF f conjI[OF n(1) conjI[OF n(2) conjI[OF n(3) conjI[OF k conjI[OF k2 conjI[OF l h]]]]]]]
  show ?thesis .
qed

text \<open>
  The claim as worded fails where the registry has, beside the dependency task \<open>t\<close>, a
  sequence-to-sequence task named \<open>t_rels\<close>: with only the column \<open>t_rels_target_words\<close>
  the task \<open>t\<close> is not handled and the other task writes the key \<open>t_rels\<close>, so the mapping
  has \<open>t_rels\<close> without \<open>t_head_indices\<close>, and the humanizer's lookup raises.
\<close>

theorem rels_without_head_indices:
  "forward clash_model () (example_metadata [(''t_rels_target_words'', 0)]) [(''u'', 5)] (\<lambda>_. 0) =
     (Inr [(''logits'', Dict []), (''class_probabilities'', Dict [(''t_rels'', 7)]),
           (''loss'', Tensor 0), (''tokens'', Seq [Seq []]), (''full_data'', Seq [Seq []]),
           (''col_idxs'', Seq [Cols [(''t_rels_target_words'', 0)]]),
           (''tasks'', Seq [Seq [Str ''t'', Str ''t_rels'']]),
           (''task_types'', Seq [Seq [Str ''dependency'', Str ''seq2seq'']]), (''mask'', Tensor 1)],
      (\<lambda>_. 0)(''t_rels'' := Suc 0))
   \<and> task_type_of clash_model ''t'' = Inr ''dependency''
   \<and> has_key [(''t_rels'', 7 :: real)] ''t_rels''
   \<and> \<not> has_key [(''t_rels'', 7 :: real)] ''t_head_indices''
   \<and> fst (make_output_human_readable clash_model
       [(''logits'', Dict []), (''class_probabilities'', Dict [(''t_rels'', 7)]),
        (''loss'', Tensor 0), (''tokens'', Seq [Seq []]), (''full_data'', Seq [Seq []]),
        (''col_idxs'', Seq [Cols [(''t_rels_target_words'', 0)]]),
        (''tasks'', Seq [Seq [Str ''t'', Str ''t_rels'']]),
        (''task_types'', Seq [Seq [Str ''dependency'', Str ''seq2seq'']]), (''mask'', Tensor 1)]
       ((\<lambda>_. 0)(''t_rels'' := Suc 0))) = Inl (KeyError ''t_head_indices'')"
  by (simp add: forward_def first_col_idxs_def is_active_def has_key_def
      shared_representation_def call_decoder_def decoder_call_def after_call_def
      store_probabilities_def py_get_def gold_present_def output_bundle_def
      make_output_human_readable_def humanize_task_def task_type_of_def py_contains_def
      py_getitem_def humanize_entry_def humanize_dependency_def dep_lookup_def
      wrap_zero_loss_def equals_zero_def example_decoder_def example_model_def
      example_metadata_def clash_model_def)

text \<open>
  The clause about the humanizer also needs that no task is named \<open>class_probabilities\<close>.
  Here the registry has no task named \<open>t_rels\<close> or \<open>t_head_indices\<close> and the mapping of
  \<open>forward\<close> has neither key; the humanizer stores the first task's prediction, a mapping
  with the key \<open>t_rels\<close>, under \<open>class_probabilities\<close>, and the lookup of the head indices
  raises at the task \<open>t\<close>.
\<close>

lemma humanized_mapping_shadows_class_probabilities:
  "forward shadow_mapping_model () (example_metadata [(''class_probabilities'', 0)]) [(''u'', 5)]
     (\<lambda>_. 0) =
     (Inr [(''logits'', Dict []), (''class_probabilities'', Dict [(''class_probabilities'', 7)]),
           (''loss'', Tensor 0), (''tokens'', Seq [Seq []]), (''full_data'', Seq [Seq []]),
           (''col_idxs'', Seq [Cols [(''class_probabilities'', 0)]]),
           (''tasks'', Seq [Seq [Str ''class_probabilities'', Str ''t'']]),
           (''task_types'', Seq [Seq [Str ''classification'', Str ''dependency'']]),
           (''mask'', Tensor 1)],
      (\<lambda>_. 0)(''class_probabilities'' := Suc 0))
   \<and> fst (make_output_human_readable shadow_mapping_model
       [(''logits'', Dict []), (''class_probabilities'', Dict [(''class_probabilities'', 7)]),
        (''loss'', Tensor 0), (''tokens'', Seq [Seq []]), (''full_data'', Seq [Seq []]),
        (''col_idxs'', Seq [Cols [(''class_probabilities'', 0)]]),
        (''tasks'', Seq [Seq [Str ''class_probabilities'', Str ''t'']]),
        (''task_types'', Seq [Seq [Str ''classification'', Str ''dependency'']]),
        (''mask'', Tensor 1)]
       ((\<lambda>_. 0)(''class_probabilities'' := Suc 0))) = Inl (KeyError ''t_head_indices'')"
  by (simp add: forward_def first_col_idxs_def is_active_def has_key_def
      shared_representation_def call_decoder_def decoder_call_def after_call_def
      store_probabilities_def py_get_def gold_present_def output_bundle_def
      make_output_human_readable_def humanize_task_def task_type_of_def py_contains_def
      py_getitem_def humanize_entry_def humanize_dependency_def dep_lookup_def
      wrap_zero_loss_def equals_zero_def example_decoder_def mapping_decoder_def
      example_model_def example_metadata_def shadow_mapping_model_def)

end
